theory Spec2Isabelle
  imports Main
begin

section \<open>Errors and the absence classifiers\<close>

text \<open>
  A Go \<open>error\<close> is an interface value. The poller looks at an error in three ways only:
  it asks whether the value also implements \<open>awserr.Error\<close> (the type assertion
  \<open>err.(awserr.Error)\<close>, which then gives \<open>Code()\<close> and \<open>Message()\<close>), it reads the text
  \<open>err.Error()\<close>, and it passes the value on. The model keeps exactly that much:
  \<^item> \<open>ContextErr\<close>: what \<open>ctx.Err()\<close> returns once the context is done
    (\<open>context.Canceled\<close> or \<open>context.DeadlineExceeded\<close>);
  \<^item> \<open>ErrorString\<close>: a value made by \<open>errors.New\<close> or \<open>fmt.Errorf\<close>, or any other error
    that is not an \<open>awserr.Error\<close>, with its text;
  \<^item> \<open>AwsError code message text\<close>: a value implementing \<open>awserr.Error\<close>, with the results
    of \<open>Code()\<close>, \<open>Message()\<close> and \<open>Error()\<close>. The text is kept as a field of its own, since
    the SDK renders it (code, message, status code, request id) outside this package.
  A nil error is \<open>None\<close> of \<open>error option\<close>.
\<close>

datatype ctx_err = Canceled | DeadlineExceeded

datatype error =
    ContextErr ctx_err
  | ErrorString string
  | AwsError string string string

fun ErrorText :: "error \<Rightarrow> string" where
  "ErrorText (ContextErr Canceled) = ''context canceled''"
| "ErrorText (ContextErr DeadlineExceeded) = ''context deadline exceeded''"
| "ErrorText (ErrorString s) = s"
| "ErrorText (AwsError code msg txt) = txt"

text \<open>The type assertion \<open>awsErr, ok := err.(awserr.Error)\<close>: \<open>Some (Code, Message)\<close> when ok.\<close>

fun as_awserr :: "error \<Rightarrow> (string \<times> string) option" where
  "as_awserr (AwsError code msg txt) = Some (code, msg)"
| "as_awserr (ContextErr c) = None"
| "as_awserr (ErrorString s) = None"

text \<open>
  \<open>strings.HasPrefix(s, prefix)\<close> is \<open>len(s) >= len(prefix) && s[:len(prefix)] == prefix\<close>;
  \<open>strings.Contains(s, substr)\<close> holds when \<open>substr\<close> occurs at some offset of \<open>s\<close>.
  Go strings are byte sequences, as \<open>string\<close> is here.
\<close>

definition HasPrefix :: "string \<Rightarrow> string \<Rightarrow> bool" where
  "HasPrefix s p = (length p \<le> length s \<and> take (length p) s = p)"

fun Contains :: "string \<Rightarrow> string \<Rightarrow> bool" where
  "Contains [] substr = HasPrefix [] substr"
| "Contains (c # s) substr = (HasPrefix (c # s) substr \<or> Contains s substr)"

fun IsDeleted :: "error option \<Rightarrow> bool" where
  "IsDeleted None = False"
| "IsDeleted (Some err) =
     (if (case as_awserr err of
            Some (code, msg) \<Rightarrow>
              code = ''ResourceNotFoundException'' \<and> HasPrefix msg ''No cluster found for''
          | None \<Rightarrow> False)
      then True
      else Contains (ErrorText err) ''No cluster found for name: '')"

fun updateNotExists :: "error option \<Rightarrow> bool" where
  "updateNotExists None = False"
| "updateNotExists (Some err) =
     (if (case as_awserr err of
            Some (code, msg) \<Rightarrow>
              code = ''ResourceNotFoundException'' \<and> HasPrefix msg ''No update found for''
          | None \<Rightarrow> False)
      then True
      else Contains (ErrorText err) ''No update found'')"

section \<open>Data of the pollers\<close>

text \<open>
  The SDK's \<open>eks.Cluster\<close> and \<open>eks.Update\<close> with the fields the pollers touch; every field
  of the SDK is a pointer, so a string field is a \<open>string option\<close>. An output object carries
  the text its \<open>GoString()\<close> method renders.
\<close>

record Cluster =
  Name :: "string option"
  Status :: "string option"

record Update =
  Id :: "string option"
  Status :: "string option"
  Type :: "string option"

record DescribeClusterOutput =
  Cluster :: "Cluster option"
  GoString :: string

record DescribeUpdateOutput =
  Update :: "Update option"
  GoString :: string

text \<open>\<open>ClusterStatus\<close> and \<open>UpdateStatus\<close>: the events sent on the channel.\<close>

record ClusterStatus =
  Cluster :: "Cluster option"
  Error :: "error option"

record UpdateStatus =
  Update :: "Update option"
  Error :: "error option"

text \<open>
  The SDK's status constants \<open>eks.ClusterStatusFailed\<close>, \<open>eks.UpdateStatusCancelled\<close> and
  \<open>eks.UpdateStatusFailed\<close>. The constant \<open>eksconfig.ClusterStatusDELETEDORNOTEXIST\<close> is
  declared in another package of the repository; \<open>Poll\<close> takes its value as a parameter.
\<close>

definition ClusterStatusFailed :: string where
  "ClusterStatusFailed = ''FAILED''"

definition UpdateStatusCancelled :: string where
  "UpdateStatusCancelled = ''Cancelled''"

definition UpdateStatusFailed :: string where
  "UpdateStatusFailed = ''Failed''"

text \<open>\<open>aws.StringValue\<close>: the empty string for a nil pointer.\<close>

definition StringValue :: "string option \<Rightarrow> string" where
  "StringValue p = (case p of None \<Rightarrow> [] | Some s \<Rightarrow> s)"

text \<open>
  The verb \<open>%q\<close> of \<open>fmt.Errorf\<close> on a string of plain letters: the string between
  double quotes (the three status constants have no character that \<open>%q\<close> escapes).
\<close>

definition quoted :: "string \<Rightarrow> string" where
  "quoted s = [CHR 0x22] @ s @ [CHR 0x22]"

text \<open>
  \<open>Op\<close>, \<open>OpOption\<close>, \<open>WithQueryFunc\<close> and \<open>applyOpts\<close>. A callback \<open>func()\<close> is known to the
  poller only as a value that is nil or not and that can be called; the model names a
  callback by a number and records each call.
\<close>

type_synonym func = nat

record Op =
  queryFunc :: "func option"

type_synonym OpOption = "Op \<Rightarrow> Op"

definition WithQueryFunc :: "func option \<Rightarrow> OpOption" where
  "WithQueryFunc f = (\<lambda>op. op\<lparr>queryFunc := f\<rparr>)"

definition applyOpts :: "Op \<Rightarrow> OpOption list \<Rightarrow> Op" where
  "applyOpts op opts = foldl (\<lambda>op' opt. opt op') op opts"

section \<open>The environment of a run, and what a run does\<close>

text \<open>
  The goroutine started by \<open>Poll\<close> is sequential; everything it does not decide itself comes
  from its environment: the value of \<open>ctx.Err()\<close> at the loop guard, the case each \<open>select\<close>
  takes (Go picks among the ready cases), and what the describe call returns. One \<open>tick\<close>
  holds the environment's answers for one iteration of the loop; an answer the iteration
  does not ask for is ignored. A run is driven by a list of ticks. When the list is used up
  the goroutine has not returned yet: the result is the trace so far and \<open>False\<close>.

  The trace lists, in order, every observation and every effect of the goroutine.
  \<open>Select d r\<close> is a \<open>select\<close> whose timer case is \<open>time.After(d)\<close> and that took case \<open>r\<close>.
\<close>

datatype select_outcome = CtxDone ctx_err | StopRecv | TimerFired

record 'o tick =
  ctxErr :: "ctx_err option"
  interval_select :: select_outcome
  api :: "'o \<times> error option"
  initial_select :: select_outcome

datatype ('i, 'o, 'ev) action =
    CtxErr "ctx_err option"
  | Select int select_outcome
  | Describe 'i 'o "error option"
  | Send 'ev
  | Close
  | Call func

text \<open>The loop variables \<open>waitDur\<close> and \<open>first\<close>; how an iteration of the loop ends.\<close>

record loop_state =
  waitDur :: int
  first :: bool

datatype flow = Continue loop_state | Return

section \<open>Poll\<close>

type_synonym Poll_action = "(string, DescribeClusterOutput, ClusterStatus) action"

text \<open>
  The body of the \<open>for\<close> loop of \<open>Poll\<close>, with the parameters of \<open>Poll\<close> under their names.
  \<open>del\<close> is \<open>eksconfig.ClusterStatusDELETEDORNOTEXIST\<close>, \<open>ret\<close> the \<open>Op\<close> after \<open>applyOpts\<close>.
  Durations are nanoseconds (\<open>time.Duration\<close>).
\<close>

definition Poll_body ::
  "string \<Rightarrow> string \<Rightarrow> string \<Rightarrow> int \<Rightarrow> int \<Rightarrow> Op \<Rightarrow> loop_state
     \<Rightarrow> DescribeClusterOutput tick \<Rightarrow> Poll_action list \<times> flow" where
  "Poll_body del clusterName desiredClusterStatus initialWait pollInterval ret st e =
    (case interval_select e of
       CtxDone c \<Rightarrow>
         ([Select (waitDur st) (CtxDone c),
           Send \<lparr>Cluster = None, Error = Some (ContextErr c)\<rparr>, Close], Return)
     | StopRecv \<Rightarrow>
         ([Select (waitDur st) StopRecv,
           Send \<lparr>Cluster = None, Error = Some (ErrorString ''wait stopped'')\<rparr>, Close], Return)
     | TimerFired \<Rightarrow>
         (let st1 = (if waitDur st = 0 then st\<lparr>waitDur := pollInterval\<rparr> else st);
              (output, err) = api e;
              pre = [Select (waitDur st) TimerFired, Describe clusterName output err]
          in case err of
               Some er \<Rightarrow>
                 if IsDeleted err then
                   if desiredClusterStatus = del
                   then (pre @ [Send \<lparr>Cluster = None, Error = None\<rparr>, Close], Return)
                   else (pre @ [Send \<lparr>Cluster = None, Error = err\<rparr>, Close], Return)
                 else (pre @ [Send \<lparr>Cluster = None, Error = err\<rparr>], Continue st1)
             | None \<Rightarrow>
                 (case DescribeClusterOutput.Cluster output of
                    None \<Rightarrow>
                      (pre @ [Send \<lparr>Cluster = None, Error = Some (ErrorString
                          (''unexpected empty response '' @ DescribeClusterOutput.GoString output))\<rparr>],
                       Continue st1)
                  | Some cluster \<Rightarrow>
                      (let currentStatus = StringValue (Cluster.Status cluster) in
                       if currentStatus = desiredClusterStatus then
                         (pre @ [Send \<lparr>Cluster = Some cluster, Error = None\<rparr>, Close], Return)
                       else if currentStatus = ClusterStatusFailed then
                         (pre @ [Send \<lparr>Cluster = Some cluster, Error = Some (ErrorString
                             (''unexpected cluster status '' @ quoted ClusterStatusFailed))\<rparr>, Close],
                          Return)
                       else
                         (let sent = pre @ [Send \<lparr>Cluster = Some cluster, Error = None\<rparr>]
                                @ (case queryFunc ret of Some f \<Rightarrow> [Call f] | None \<Rightarrow> [])
                          in if first st1 then
                               (case initial_select e of
                                  CtxDone c \<Rightarrow>
                                    (sent @ [Select initialWait (CtxDone c),
                                       Send \<lparr>Cluster = None, Error = Some (ContextErr c)\<rparr>, Close],
                                     Return)
                                | StopRecv \<Rightarrow>
                                    (sent @ [Select initialWait StopRecv,
                                       Send \<lparr>Cluster = None,
                                             Error = Some (ErrorString ''wait stopped'')\<rparr>, Close],
                                     Return)
                                | TimerFired \<Rightarrow>
                                    (sent @ [Select initialWait TimerFired],
                                     Continue (st1\<lparr>first := False\<rparr>)))
                             else (sent, Continue st1))))))"

text \<open>
  The loop \<open>for ctx.Err() == nil { ... }\<close> and the lines after it. The second component of
  the result says whether the goroutine has returned.
\<close>

fun Poll_loop ::
  "string \<Rightarrow> string \<Rightarrow> string \<Rightarrow> int \<Rightarrow> int \<Rightarrow> Op \<Rightarrow> loop_state
     \<Rightarrow> DescribeClusterOutput tick list \<Rightarrow> Poll_action list \<times> bool" where
  "Poll_loop del clusterName desiredClusterStatus initialWait pollInterval ret st [] = ([], False)"
| "Poll_loop del clusterName desiredClusterStatus initialWait pollInterval ret st (e # es) =
    (case ctxErr e of
       Some c \<Rightarrow>
         ([CtxErr (Some c), Send \<lparr>Cluster = None, Error = Some (ContextErr c)\<rparr>, Close], True)
     | None \<Rightarrow>
         (case Poll_body del clusterName desiredClusterStatus initialWait pollInterval ret st e of
            (acts, Return) \<Rightarrow> (CtxErr None # acts, True)
          | (acts, Continue st') \<Rightarrow>
              (let (rest, returned) =
                     Poll_loop del clusterName desiredClusterStatus initialWait pollInterval ret st' es
               in (CtxErr None # acts @ rest, returned))))"

definition Poll ::
  "string \<Rightarrow> string \<Rightarrow> string \<Rightarrow> int \<Rightarrow> int \<Rightarrow> OpOption list
     \<Rightarrow> DescribeClusterOutput tick list \<Rightarrow> Poll_action list \<times> bool" where
  "Poll del clusterName desiredClusterStatus initialWait pollInterval opts script =
     Poll_loop del clusterName desiredClusterStatus initialWait pollInterval
       (applyOpts \<lparr>queryFunc = None\<rparr> opts) \<lparr>waitDur = 0, first = True\<rparr> script"

section \<open>PollUpdate\<close>

type_synonym PollUpdate_action = "(string \<times> string, DescribeUpdateOutput, UpdateStatus) action"

definition PollUpdate_body ::
  "string \<Rightarrow> string \<Rightarrow> string \<Rightarrow> int \<Rightarrow> int \<Rightarrow> Op \<Rightarrow> loop_state
     \<Rightarrow> DescribeUpdateOutput tick \<Rightarrow> PollUpdate_action list \<times> flow" where
  "PollUpdate_body clusterName requestID desiredUpdateStatus initialWait pollInterval ret st e =
    (case interval_select e of
       CtxDone c \<Rightarrow>
         ([Select (waitDur st) (CtxDone c),
           Send \<lparr>Update = None, Error = Some (ContextErr c)\<rparr>, Close], Return)
     | StopRecv \<Rightarrow>
         ([Select (waitDur st) StopRecv,
           Send \<lparr>Update = None, Error = Some (ErrorString ''wait stopped'')\<rparr>, Close], Return)
     | TimerFired \<Rightarrow>
         (let st1 = (if waitDur st = 0 then st\<lparr>waitDur := pollInterval\<rparr> else st);
              (output, err) = api e;
              pre = [Select (waitDur st) TimerFired, Describe (clusterName, requestID) output err]
          in case err of
               Some er \<Rightarrow>
                 if updateNotExists err
                 then (pre @ [Send \<lparr>Update = None, Error = err\<rparr>, Close], Return)
                 else (pre @ [Send \<lparr>Update = None, Error = err\<rparr>], Continue st1)
             | None \<Rightarrow>
                 (case DescribeUpdateOutput.Update output of
                    None \<Rightarrow>
                      (pre @ [Send \<lparr>Update = None, Error = Some (ErrorString
                          (''unexpected empty response '' @ DescribeUpdateOutput.GoString output))\<rparr>],
                       Continue st1)
                  | Some update \<Rightarrow>
                      (let currentStatus = StringValue (Update.Status update) in
                       if currentStatus = desiredUpdateStatus then
                         (pre @ [Send \<lparr>Update = Some update, Error = None\<rparr>, Close], Return)
                       else if currentStatus = UpdateStatusCancelled then
                         (pre @ [Send \<lparr>Update = Some update, Error = Some (ErrorString
                             (''unexpected cluster update status '' @ quoted UpdateStatusCancelled))\<rparr>,
                            Close],
                          Return)
                       else if currentStatus = UpdateStatusFailed then
                         (pre @ [Send \<lparr>Update = Some update, Error = Some (ErrorString
                             (''unexpected cluster update status '' @ quoted UpdateStatusFailed))\<rparr>,
                            Close],
                          Return)
                       else
                         (let sent = pre @ [Send \<lparr>Update = Some update, Error = None\<rparr>]
                                @ (case queryFunc ret of Some f \<Rightarrow> [Call f] | None \<Rightarrow> [])
                          in if first st1 then
                               (case initial_select e of
                                  CtxDone c \<Rightarrow>
                                    (sent @ [Select initialWait (CtxDone c),
                                       Send \<lparr>Update = None, Error = Some (ContextErr c)\<rparr>, Close],
                                     Return)
                                | StopRecv \<Rightarrow>
                                    (sent @ [Select initialWait StopRecv,
                                       Send \<lparr>Update = None,
                                             Error = Some (ErrorString ''wait stopped'')\<rparr>, Close],
                                     Return)
                                | TimerFired \<Rightarrow>
                                    (sent @ [Select initialWait TimerFired],
                                     Continue (st1\<lparr>first := False\<rparr>)))
                             else (sent, Continue st1))))))"

fun PollUpdate_loop ::
  "string \<Rightarrow> string \<Rightarrow> string \<Rightarrow> int \<Rightarrow> int \<Rightarrow> Op \<Rightarrow> loop_state
     \<Rightarrow> DescribeUpdateOutput tick list \<Rightarrow> PollUpdate_action list \<times> bool" where
  "PollUpdate_loop clusterName requestID desiredUpdateStatus initialWait pollInterval ret st [] =
     ([], False)"
| "PollUpdate_loop clusterName requestID desiredUpdateStatus initialWait pollInterval ret st (e # es) =
    (case ctxErr e of
       Some c \<Rightarrow>
         ([CtxErr (Some c), Send \<lparr>Update = None, Error = Some (ContextErr c)\<rparr>, Close], True)
     | None \<Rightarrow>
         (case PollUpdate_body clusterName requestID desiredUpdateStatus initialWait pollInterval
                 ret st e of
            (acts, Return) \<Rightarrow> (CtxErr None # acts, True)
          | (acts, Continue st') \<Rightarrow>
              (let (rest, returned) =
                     PollUpdate_loop clusterName requestID desiredUpdateStatus initialWait
                       pollInterval ret st' es
               in (CtxErr None # acts @ rest, returned))))"

definition PollUpdate ::
  "string \<Rightarrow> string \<Rightarrow> string \<Rightarrow> int \<Rightarrow> int \<Rightarrow> OpOption list
     \<Rightarrow> DescribeUpdateOutput tick list \<Rightarrow> PollUpdate_action list \<times> bool" where
  "PollUpdate clusterName requestID desiredUpdateStatus initialWait pollInterval opts script =
     PollUpdate_loop clusterName requestID desiredUpdateStatus initialWait pollInterval
       (applyOpts \<lparr>queryFunc = None\<rparr> opts) \<lparr>waitDur = 0, first = True\<rparr> script"

section \<open>Reading a trace\<close>

text \<open>The events sent on the channel, in order.\<close>

fun sends :: "('i, 'o, 'ev) action list \<Rightarrow> 'ev list" where
  "sends [] = []"
| "sends (Send ev # acts) = ev # sends acts"
| "sends (x # acts) = sends acts"

text \<open>
  The events of a trace with the earliest instant at which each can have been sent: the
  start instant plus the durations of the timers that fired before it
  (\<open>time.After(d)\<close> with \<open>d \<le> 0\<close> fires at once). The describe call, the callback and the
  sends are given no duration.
\<close>

fun sent_at :: "int \<Rightarrow> ('i, 'o, 'ev) action list \<Rightarrow> (int \<times> 'ev) list" where
  "sent_at t [] = []"
| "sent_at t (Send ev # acts) = (t, ev) # sent_at t acts"
| "sent_at t (Select d TimerFired # acts) = sent_at (t + max 0 d) acts"
| "sent_at t (x # acts) = sent_at t acts"

text \<open>
  \<open>at_each_point P tr\<close>: \<open>P x post\<close> holds for every action \<open>x\<close> of the trace, \<open>post\<close> being
  what follows it.
\<close>

fun at_each_point :: "('a \<Rightarrow> 'a list \<Rightarrow> bool) \<Rightarrow> 'a list \<Rightarrow> bool" where
  "at_each_point P [] = True"
| "at_each_point P (x # post) = (P x post \<and> at_each_point P post)"

section \<open>Predicates on traces\<close>

text \<open>
  What must follow an action of a trace, for the properties below. Each predicate takes an
  action \<open>x\<close> and the rest \<open>post\<close> of the trace after it.
\<close>

text \<open>After a describe call whose error is classified as absence, \<open>Poll\<close> ends.\<close>

definition absent_ends :: "string \<Rightarrow> string \<Rightarrow> Poll_action \<Rightarrow> Poll_action list \<Rightarrow> bool" where
  "absent_ends del desired x post =
     (case x of
        Describe i out err \<Rightarrow>
          (if IsDeleted err
           then post = [Send \<lparr>Cluster = None, Error = (if desired = del then None else err)\<rparr>, Close]
           else True)
      | _ \<Rightarrow> True)"

definition update_absent_ends :: "PollUpdate_action \<Rightarrow> PollUpdate_action list \<Rightarrow> bool" where
  "update_absent_ends x post =
     (case x of
        Describe i out err \<Rightarrow>
          (if updateNotExists err then post = [Send \<lparr>Update = None, Error = err\<rparr>, Close] else True)
      | _ \<Rightarrow> True)"

text \<open>After a \<open>select\<close> that took the cancellation or the stop case, the run ends.\<close>

definition abort_ends ::
  "(error \<Rightarrow> 'ev) \<Rightarrow> ('i, 'o, 'ev) action \<Rightarrow> ('i, 'o, 'ev) action list \<Rightarrow> bool" where
  "abort_ends mk x post =
     (case x of
        Select d r \<Rightarrow>
          (case r of
             CtxDone c \<Rightarrow> post = [Send (mk (ContextErr c)), Close]
           | StopRecv \<Rightarrow> post = [Send (mk (ErrorString ''wait stopped'')), Close]
           | TimerFired \<Rightarrow> True)
      | _ \<Rightarrow> True)"

text \<open>After a describe call that returns a snapshot with the desired status, the run ends.\<close>

definition desired_ends :: "string \<Rightarrow> Poll_action \<Rightarrow> Poll_action list \<Rightarrow> bool" where
  "desired_ends desired x post =
     (case x of
        Describe i out err \<Rightarrow>
          (case (err, DescribeClusterOutput.Cluster out) of
             (None, Some c) \<Rightarrow>
               (if StringValue (Cluster.Status c) = desired
                then post = [Send \<lparr>Cluster = Some c, Error = None\<rparr>, Close] else True)
           | _ \<Rightarrow> True)
      | _ \<Rightarrow> True)"

definition update_desired_ends :: "string \<Rightarrow> PollUpdate_action \<Rightarrow> PollUpdate_action list \<Rightarrow> bool" where
  "update_desired_ends desired x post =
     (case x of
        Describe i out err \<Rightarrow>
          (case (err, DescribeUpdateOutput.Update out) of
             (None, Some u) \<Rightarrow>
               (if StringValue (Update.Status u) = desired
                then post = [Send \<lparr>Update = Some u, Error = None\<rparr>, Close] else True)
           | _ \<Rightarrow> True)
      | _ \<Rightarrow> True)"

text \<open>
  The callback and the snapshot events: a call of the callback comes right after the event
  of a snapshot that is neither desired nor failed (\<open>call_after_progress\<close>), and such an
  event is followed at once by the call of the configured callback (\<open>progress_calls\<close>).
\<close>

definition call_after_progress ::
  "func option \<Rightarrow> string \<Rightarrow> Poll_action \<Rightarrow> Poll_action list \<Rightarrow> bool" where
  "call_after_progress qf desired x post =
     (case post of
        Call g # post' \<Rightarrow>
          qf = Some g \<and>
          (\<exists>c. x = Send \<lparr>Cluster = Some c, Error = None\<rparr>
             \<and> StringValue (Cluster.Status c) \<noteq> desired
             \<and> StringValue (Cluster.Status c) \<noteq> ClusterStatusFailed)
      | _ \<Rightarrow> True)"

definition progress_calls ::
  "func option \<Rightarrow> string \<Rightarrow> Poll_action \<Rightarrow> Poll_action list \<Rightarrow> bool" where
  "progress_calls qf desired x post =
     (case x of
        Send ev \<Rightarrow>
          (case (ClusterStatus.Cluster ev, ClusterStatus.Error ev, qf) of
             (Some c, None, Some f) \<Rightarrow>
               (if StringValue (Cluster.Status c) = desired then True
                else (\<exists>post'. post = Call f # post'))
           | _ \<Rightarrow> True)
      | _ \<Rightarrow> True)"

definition update_call_after_progress ::
  "func option \<Rightarrow> string \<Rightarrow> PollUpdate_action \<Rightarrow> PollUpdate_action list \<Rightarrow> bool" where
  "update_call_after_progress qf desired x post =
     (case post of
        Call g # post' \<Rightarrow>
          qf = Some g \<and>
          (\<exists>u. x = Send \<lparr>Update = Some u, Error = None\<rparr>
             \<and> StringValue (Update.Status u) \<noteq> desired
             \<and> StringValue (Update.Status u) \<noteq> UpdateStatusCancelled
             \<and> StringValue (Update.Status u) \<noteq> UpdateStatusFailed)
      | _ \<Rightarrow> True)"

definition update_progress_calls ::
  "func option \<Rightarrow> string \<Rightarrow> PollUpdate_action \<Rightarrow> PollUpdate_action list \<Rightarrow> bool" where
  "update_progress_calls qf desired x post =
     (case x of
        Send ev \<Rightarrow>
          (case (UpdateStatus.Update ev, UpdateStatus.Error ev, qf) of
             (Some u, None, Some f) \<Rightarrow>
               (if StringValue (Update.Status u) = desired then True
                else (\<exists>post'. post = Call f # post'))
           | _ \<Rightarrow> True)
      | _ \<Rightarrow> True)"

text \<open>
  The shape of an event: one field populated, or both nil as the last event of \<open>Poll\<close> when
  the desired status is the deleted one, or both set as the last event with a failure
  status.
\<close>

definition event_shape :: "string \<Rightarrow> string \<Rightarrow> Poll_action \<Rightarrow> Poll_action list \<Rightarrow> bool" where
  "event_shape del desired x post =
     (case x of
        Send ev \<Rightarrow>
          (case (ClusterStatus.Cluster ev, ClusterStatus.Error ev) of
             (None, None) \<Rightarrow> desired = del \<and> post = [Close]
           | (Some c, Some e) \<Rightarrow>
               StringValue (Cluster.Status c) = ClusterStatusFailed
               \<and> e = ErrorString (''unexpected cluster status '' @ quoted ClusterStatusFailed)
               \<and> post = [Close]
           | _ \<Rightarrow> True)
      | _ \<Rightarrow> True)"

definition update_event_shape :: "PollUpdate_action \<Rightarrow> PollUpdate_action list \<Rightarrow> bool" where
  "update_event_shape x post =
     (case x of
        Send ev \<Rightarrow>
          (case (UpdateStatus.Update ev, UpdateStatus.Error ev) of
             (None, None) \<Rightarrow> False
           | (Some u, Some e) \<Rightarrow>
               (StringValue (Update.Status u) = UpdateStatusCancelled
                \<or> StringValue (Update.Status u) = UpdateStatusFailed)
               \<and> e = ErrorString (''unexpected cluster update status ''
                                     @ quoted (StringValue (Update.Status u)))
               \<and> post = [Close]
           | _ \<Rightarrow> True)
      | _ \<Rightarrow> True)"

text \<open>A trace that ends with a last event and the close, and has no other close.\<close>

definition closes :: "('i, 'o, 'ev) action list \<Rightarrow> bool" where
  "closes tr = (\<exists>pre ev. tr = pre @ [Send ev, Close] \<and> Close \<notin> set pre)"

section \<open>Ticks and errors of the concrete runs\<close>

text \<open>
  A tick in which the context is live, every timer fires, and the describe call returns a
  cluster (an update) with the given status; and one in which the call fails with the given
  error. A second is \<open>1000000000\<close> nanoseconds.
\<close>

definition cluster_tick :: "string \<Rightarrow> DescribeClusterOutput tick" where
  "cluster_tick s =
     \<lparr>ctxErr = None, interval_select = TimerFired,
      api = (\<lparr>DescribeClusterOutput.Cluster = Some \<lparr>Name = Some ''c'', Status = Some s\<rparr>,
              DescribeClusterOutput.GoString = ''{}''\<rparr>, None),
      initial_select = TimerFired\<rparr>"

definition cluster_error_tick :: "error \<Rightarrow> DescribeClusterOutput tick" where
  "cluster_error_tick err =
     \<lparr>ctxErr = None, interval_select = TimerFired,
      api = (\<lparr>DescribeClusterOutput.Cluster = None, DescribeClusterOutput.GoString = ''{}''\<rparr>,
             Some err),
      initial_select = TimerFired\<rparr>"

definition update_tick :: "string \<Rightarrow> DescribeUpdateOutput tick" where
  "update_tick s =
     \<lparr>ctxErr = None, interval_select = TimerFired,
      api = (\<lparr>DescribeUpdateOutput.Update =
                Some \<lparr>Id = Some ''u'', Status = Some s, Type = Some ''VersionUpdate''\<rparr>,
              DescribeUpdateOutput.GoString = ''{}''\<rparr>, None),
      initial_select = TimerFired\<rparr>"

definition update_error_tick :: "error \<Rightarrow> DescribeUpdateOutput tick" where
  "update_error_tick err =
     \<lparr>ctxErr = None, interval_select = TimerFired,
      api = (\<lparr>DescribeUpdateOutput.Update = None, DescribeUpdateOutput.GoString = ''{}''\<rparr>,
             Some err),
      initial_select = TimerFired\<rparr>"

definition cluster_not_found :: error where
  "cluster_not_found =
     AwsError ''ResourceNotFoundException'' ''No cluster found for name: c''
       ''ResourceNotFoundException: No cluster found for name: c''"

definition update_not_found :: error where
  "update_not_found =
     AwsError ''ResourceNotFoundException'' ''No update found for ID: u''
       ''ResourceNotFoundException: No update found for ID: u''"

definition throttled :: error where
  "throttled = AwsError ''ThrottlingException'' ''Rate exceeded'' ''ThrottlingException: Rate exceeded''"

definition second :: int where
  "second = 1000000000"

section \<open>Ticks that are retried\<close>

text \<open>
  A tick on which the loop goes on after a query that gave no snapshot: the context is
  live, the interval timer fires, and the describe call returns an error not classified as
  absence, or no error and an empty payload. \<open>transient_event\<close> is the event the source sends
  on such a tick. \<open>retry_trace\<close> is the trace of consecutive such iterations once \<open>waitDur\<close> is
  the poll interval.
\<close>

definition transient_tick :: "DescribeClusterOutput tick \<Rightarrow> bool" where
  "transient_tick e =
     (ctxErr e = None \<and> interval_select e = TimerFired \<and>
      (case api e of
         (out, Some er) \<Rightarrow> \<not> IsDeleted (Some er)
       | (out, None) \<Rightarrow> DescribeClusterOutput.Cluster out = None))"

definition transient_event :: "DescribeClusterOutput tick \<Rightarrow> ClusterStatus" where
  "transient_event e =
     (case api e of
        (out, Some er) \<Rightarrow> \<lparr>Cluster = None, Error = Some er\<rparr>
      | (out, None) \<Rightarrow>
          \<lparr>Cluster = None, Error = Some (ErrorString
             (''unexpected empty response '' @ DescribeClusterOutput.GoString out))\<rparr>)"

definition update_transient_tick :: "DescribeUpdateOutput tick \<Rightarrow> bool" where
  "update_transient_tick e =
     (ctxErr e = None \<and> interval_select e = TimerFired \<and>
      (case api e of
         (out, Some er) \<Rightarrow> \<not> updateNotExists (Some er)
       | (out, None) \<Rightarrow> DescribeUpdateOutput.Update out = None))"

definition update_transient_event :: "DescribeUpdateOutput tick \<Rightarrow> UpdateStatus" where
  "update_transient_event e =
     (case api e of
        (out, Some er) \<Rightarrow> \<lparr>Update = None, Error = Some er\<rparr>
      | (out, None) \<Rightarrow>
          \<lparr>Update = None, Error = Some (ErrorString
             (''unexpected empty response '' @ DescribeUpdateOutput.GoString out))\<rparr>)"

definition retry_trace ::
  "'i \<Rightarrow> int \<Rightarrow> ('o tick \<Rightarrow> 'ev) \<Rightarrow> 'o tick list \<Rightarrow> ('i, 'o, 'ev) action list" where
  "retry_trace i w ev es =
     concat (map (\<lambda>e. [CtxErr None, Select w TimerFired,
                         Describe i (fst (api e)) (snd (api e)), Send (ev e)]) es)"

text \<open>
  After a tick that is retried the goroutine is back at the loop guard: what follows in the
  trace is the guard's reading of \<open>ctx.Err()\<close>, or nothing when the run has got no further.
  \<open>retried\<close>: after a describe call with an error not classified as absence, or with an
  empty payload, the error event is sent and the loop goes on.
\<close>

fun back_at_guard :: "('i, 'o, 'ev) action list \<Rightarrow> bool" where
  "back_at_guard [] = True"
| "back_at_guard (CtxErr g # acts) = True"
| "back_at_guard (x # acts) = False"

definition retried :: "Poll_action \<Rightarrow> Poll_action list \<Rightarrow> bool" where
  "retried x post =
     (case x of
        Describe i out err \<Rightarrow>
          (case err of
             Some er \<Rightarrow>
               (if IsDeleted err then True
                else (case post of
                        [] \<Rightarrow> False
                      | y # post' \<Rightarrow> y = Send \<lparr>Cluster = None, Error = err\<rparr> \<and> back_at_guard post'))
           | None \<Rightarrow>
               (case DescribeClusterOutput.Cluster out of
                  Some c \<Rightarrow> True
                | None \<Rightarrow>
                    (case post of
                       [] \<Rightarrow> False
                     | y # post' \<Rightarrow>
                         y = Send \<lparr>Cluster = None, Error = Some (ErrorString
                               (''unexpected empty response '' @ DescribeClusterOutput.GoString out))\<rparr>
                         \<and> back_at_guard post')))
      | _ \<Rightarrow> True)"

definition update_retried :: "PollUpdate_action \<Rightarrow> PollUpdate_action list \<Rightarrow> bool" where
  "update_retried x post =
     (case x of
        Describe i out err \<Rightarrow>
          (case err of
             Some er \<Rightarrow>
               (if updateNotExists err then True
                else (case post of
                        [] \<Rightarrow> False
                      | y # post' \<Rightarrow> y = Send \<lparr>Update = None, Error = err\<rparr> \<and> back_at_guard post'))
           | None \<Rightarrow>
               (case DescribeUpdateOutput.Update out of
                  Some u \<Rightarrow> True
                | None \<Rightarrow>
                    (case post of
                       [] \<Rightarrow> False
                     | y # post' \<Rightarrow>
                         y = Send \<lparr>Update = None, Error = Some (ErrorString
                               (''unexpected empty response '' @ DescribeUpdateOutput.GoString out))\<rparr>
                         \<and> back_at_guard post')))
      | _ \<Rightarrow> True)"

section \<open>Properties of the classifiers\<close>

lemma HasPrefix_iff: "HasPrefix s p \<longleftrightarrow> (\<exists>rest. s = p @ rest)"
proof
  assume "HasPrefix s p"
  then have "s = p @ drop (length p) s"
    by (metis HasPrefix_def append_take_drop_id)
  then show "\<exists>rest. s = p @ rest" ..
next
  assume "\<exists>rest. s = p @ rest"
  then show "HasPrefix s p"
    by (auto simp: HasPrefix_def)
qed

lemma Contains_iff: "Contains s sub \<longleftrightarrow> (\<exists>before after. s = before @ sub @ after)"
proof (induction s)
  case Nil
  show ?case by (auto simp: HasPrefix_iff)
next
  case (Cons c s)
  show ?case
  proof
    assume "Contains (c # s) sub"
    then consider "HasPrefix (c # s) sub" | "Contains s sub" by auto
    then show "\<exists>before after. c # s = before @ sub @ after"
    proof cases
      case 1
      then obtain rest where "c # s = sub @ rest" by (auto simp: HasPrefix_iff)
      then have "c # s = [] @ sub @ rest" by simp
      then show ?thesis by blast
    next
      case 2
      then obtain b a where "s = b @ sub @ a" using Cons.IH by auto
      then have "c # s = (c # b) @ sub @ a" by simp
      then show ?thesis by blast
    qed
  next
    assume "\<exists>before after. c # s = before @ sub @ after"
    then obtain b a where eq: "c # s = b @ sub @ a" by auto
    show "Contains (c # s) sub"
    proof (cases b)
      case Nil
      with eq have "HasPrefix (c # s) sub" by (auto simp: HasPrefix_iff)
      then show ?thesis by simp
    next
      case (Cons b0 bs)
      with eq have "s = bs @ sub @ a" by simp
      then have "Contains s sub" using Cons.IH by blast
      then show ?thesis by simp
    qed
  qed
qed

text \<open>
  C7. \<open>IsDeleted\<close> holds exactly for a non-nil error that either is an AWS error with code
  \<open>ResourceNotFoundException\<close> and a message starting with \<open>No cluster found for\<close>, or whose
  text contains \<open>No cluster found for name: \<close>. \<open>updateNotExists\<close> is the same classifier
  with the prefix \<open>No update found for\<close> and the substring \<open>No update found\<close>. Both are
  false on the nil error.
\<close>

theorem C7_classifiers:
  "(IsDeleted err \<longleftrightarrow>
      (\<exists>e. err = Some e \<and>
        ((\<exists>rest txt. e = AwsError ''ResourceNotFoundException'' (''No cluster found for'' @ rest) txt)
         \<or> (\<exists>before after. ErrorText e = before @ ''No cluster found for name: '' @ after))))
   \<and> (updateNotExists err \<longleftrightarrow>
      (\<exists>e. err = Some e \<and>
        ((\<exists>rest txt. e = AwsError ''ResourceNotFoundException'' (''No update found for'' @ rest) txt)
         \<or> (\<exists>before after. ErrorText e = before @ ''No update found'' @ after))))
   \<and> IsDeleted None = False \<and> updateNotExists None = False"
proof -
  have aws: "(case as_awserr e of Some (code, msg) \<Rightarrow> code = c \<and> HasPrefix msg p | None \<Rightarrow> False)
      \<longleftrightarrow> (\<exists>rest txt. e = AwsError c (p @ rest) txt)" for e c p
    by (cases e) (auto simp: HasPrefix_iff)
  have d: "IsDeleted err \<longleftrightarrow>
      (\<exists>e. err = Some e \<and>
        ((\<exists>rest txt. e = AwsError ''ResourceNotFoundException'' (''No cluster found for'' @ rest) txt)
         \<or> (\<exists>before after. ErrorText e = before @ ''No cluster found for name: '' @ after)))"
  proof (cases err)
    case None
    then show ?thesis by simp
  next
    case (Some e)
    then show ?thesis
      using aws[where e = e and c = "''ResourceNotFoundException''" and p = "''No cluster found for''"]
        Contains_iff[of "ErrorText e" "''No cluster found for name: ''"]
      by (simp del: Contains.simps)
  qed
  have u: "updateNotExists err \<longleftrightarrow>
      (\<exists>e. err = Some e \<and>
        ((\<exists>rest txt. e = AwsError ''ResourceNotFoundException'' (''No update found for'' @ rest) txt)
         \<or> (\<exists>before after. ErrorText e = before @ ''No update found'' @ after)))"
  proof (cases err)
    case None
    then show ?thesis by simp
  next
    case (Some e)
    then show ?thesis
      using aws[where e = e and c = "''ResourceNotFoundException''" and p = "''No update found for''"]
        Contains_iff[of "ErrorText e" "''No update found''"]
      by (simp del: Contains.simps)
  qed
  show ?thesis using d u by simp
qed

section \<open>Reasoning about runs\<close>

lemma at_each_point_iff:
  "at_each_point P tr \<longleftrightarrow> (\<forall>pre x post. tr = pre @ x # post \<longrightarrow> P x post)"
proof (induction tr)
  case Nil
  show ?case by simp
next
  case (Cons a tr)
  show ?case
    by (auto simp: Cons append_eq_Cons_conv Cons_eq_append_conv)
qed

lemma at_each_pointD: "at_each_point P tr \<Longrightarrow> tr = pre @ x # post \<Longrightarrow> P x post"
  by (simp add: at_each_point_iff)

lemma closes_final [simp]: "closes [Send ev, Close]"
  unfolding closes_def by (rule exI[of _ "[]"]) simp

lemma closes_Cons [simp]: "x \<noteq> Close \<Longrightarrow> closes tr \<Longrightarrow> closes (x # tr)"
  unfolding closes_def by (metis append_Cons set_ConsD)

lemma closes_append: "Close \<notin> set xs \<Longrightarrow> closes tr \<Longrightarrow> closes (xs @ tr)"
  by (induction xs) auto

lemma closes_count: "closes tr \<Longrightarrow> count_list tr Close = 1"
  by (auto simp: closes_def count_list_0_iff)

lemmas body_splits = select_outcome.splits option.splits prod.splits if_splits

text \<open>
  Induction over the iterations of the loop of \<open>Poll\<close>: a property of runs holds when it
  holds for the run that has not started an iteration, for the exit at the loop guard, for
  an iteration that returns, and is kept by an iteration that continues.
\<close>

lemma Poll_loop_rule:
  assumes nil: "Q [] False"
    and guard: "\<And>c. Q [CtxErr (Some c), Send \<lparr>Cluster = None, Error = Some (ContextErr c)\<rparr>, Close] True"
    and ret: "\<And>st e acts. Poll_body del cn d iw pi ret st e = (acts, Return) \<Longrightarrow> Q (CtxErr None # acts) True"
    and cont: "\<And>st e acts st' rest r. Poll_body del cn d iw pi ret st e = (acts, Continue st') \<Longrightarrow>
        Q rest r \<Longrightarrow> Q (CtxErr None # acts @ rest) r"
  shows "Q (fst (Poll_loop del cn d iw pi ret st es)) (snd (Poll_loop del cn d iw pi ret st es))"
proof (induction es arbitrary: st)
  case Nil
  show ?case using nil by simp
next
  case (Cons e es)
  show ?case
  proof (cases "ctxErr e")
    case (Some c)
    then show ?thesis using guard by simp
  next
    case None
    obtain acts fl where b: "Poll_body del cn d iw pi ret st e = (acts, fl)"
      by (cases "Poll_body del cn d iw pi ret st e")
    show ?thesis
    proof (cases fl)
      case Return
      with None b ret show ?thesis by simp
    next
      case (Continue st')
      with None b cont[OF b[unfolded Continue] Cons.IH[of st']] show ?thesis
        by (simp add: case_prod_unfold Let_def)
    qed
  qed
qed

lemma PollUpdate_loop_rule:
  assumes nil: "Q [] False"
    and guard: "\<And>c. Q [CtxErr (Some c), Send \<lparr>Update = None, Error = Some (ContextErr c)\<rparr>, Close] True"
    and ret: "\<And>st e acts. PollUpdate_body cn rid d iw pi ret st e = (acts, Return) \<Longrightarrow>
        Q (CtxErr None # acts) True"
    and cont: "\<And>st e acts st' rest r. PollUpdate_body cn rid d iw pi ret st e = (acts, Continue st') \<Longrightarrow>
        Q rest r \<Longrightarrow> Q (CtxErr None # acts @ rest) r"
  shows "Q (fst (PollUpdate_loop cn rid d iw pi ret st es))
           (snd (PollUpdate_loop cn rid d iw pi ret st es))"
proof (induction es arbitrary: st)
  case Nil
  show ?case using nil by simp
next
  case (Cons e es)
  show ?case
  proof (cases "ctxErr e")
    case (Some c)
    then show ?thesis using guard by simp
  next
    case None
    obtain acts fl where b: "PollUpdate_body cn rid d iw pi ret st e = (acts, fl)"
      by (cases "PollUpdate_body cn rid d iw pi ret st e")
    show ?thesis
    proof (cases fl)
      case Return
      with None b ret show ?thesis by simp
    next
      case (Continue st')
      with None b cont[OF b[unfolded Continue] Cons.IH[of st']] show ?thesis
        by (simp add: case_prod_unfold Let_def)
    qed
  qed
qed

subsection \<open>The close\<close>

lemma Poll_loop_closes:
  "(if snd (Poll_loop del cn d iw pi ret st es)
    then closes (fst (Poll_loop del cn d iw pi ret st es))
    else Close \<notin> set (fst (Poll_loop del cn d iw pi ret st es)))"
  by (rule Poll_loop_rule[where Q = "\<lambda>tr r. if r then closes tr else Close \<notin> set tr"])
     (auto simp: Poll_body_def Let_def closes_append split: body_splits)

lemma PollUpdate_loop_closes:
  "(if snd (PollUpdate_loop cn rid d iw pi ret st es)
    then closes (fst (PollUpdate_loop cn rid d iw pi ret st es))
    else Close \<notin> set (fst (PollUpdate_loop cn rid d iw pi ret st es)))"
  by (rule PollUpdate_loop_rule[where Q = "\<lambda>tr r. if r then closes tr else Close \<notin> set tr"])
     (auto simp: PollUpdate_body_def Let_def closes_append split: body_splits)

lemma Poll_closed_returned:
  "Poll del cn d iw pi opts script = (tr, returned) \<Longrightarrow> Close \<in> set tr \<Longrightarrow> returned"
  using Poll_loop_closes[of del cn d iw pi "applyOpts \<lparr>queryFunc = None\<rparr> opts"
      "\<lparr>waitDur = 0, first = True\<rparr>" script]
  by (auto simp: Poll_def split: if_splits)

lemma PollUpdate_closed_returned:
  "PollUpdate cn rid d iw pi opts script = (tr, returned) \<Longrightarrow> Close \<in> set tr \<Longrightarrow> returned"
  using PollUpdate_loop_closes[of cn rid d iw pi "applyOpts \<lparr>queryFunc = None\<rparr> opts"
      "\<lparr>waitDur = 0, first = True\<rparr>" script]
  by (auto simp: PollUpdate_def split: if_splits)

subsection \<open>What follows an observation\<close>

lemma Poll_loop_absent:
  "at_each_point (absent_ends del d) (fst (Poll_loop del cn d iw pi ret st es))"
  by (rule Poll_loop_rule[where Q = "\<lambda>tr r. at_each_point (absent_ends del d) tr"])
     (auto simp: Poll_body_def Let_def absent_ends_def split: body_splits)

lemma PollUpdate_loop_absent:
  "at_each_point update_absent_ends (fst (PollUpdate_loop cn rid d iw pi ret st es))"
  by (rule PollUpdate_loop_rule[where Q = "\<lambda>tr r. at_each_point update_absent_ends tr"])
     (auto simp: PollUpdate_body_def Let_def update_absent_ends_def split: body_splits)

lemma Poll_loop_abort:
  "at_each_point (abort_ends (\<lambda>err. \<lparr>Cluster = None, Error = Some err\<rparr>))
     (fst (Poll_loop del cn d iw pi ret st es))"
  by (rule Poll_loop_rule[where Q = "\<lambda>tr r.
        at_each_point (abort_ends (\<lambda>err. \<lparr>Cluster = None, Error = Some err\<rparr>)) tr"])
     (auto simp: Poll_body_def Let_def abort_ends_def split: body_splits)

lemma PollUpdate_loop_abort:
  "at_each_point (abort_ends (\<lambda>err. \<lparr>Update = None, Error = Some err\<rparr>))
     (fst (PollUpdate_loop cn rid d iw pi ret st es))"
  by (rule PollUpdate_loop_rule[where Q = "\<lambda>tr r.
        at_each_point (abort_ends (\<lambda>err. \<lparr>Update = None, Error = Some err\<rparr>)) tr"])
     (auto simp: PollUpdate_body_def Let_def abort_ends_def split: body_splits)

lemma Poll_loop_desired:
  "at_each_point (desired_ends d) (fst (Poll_loop del cn d iw pi ret st es))"
  by (rule Poll_loop_rule[where Q = "\<lambda>tr r. at_each_point (desired_ends d) tr"])
     (auto simp: Poll_body_def Let_def desired_ends_def split: body_splits)

lemma PollUpdate_loop_desired:
  "at_each_point (update_desired_ends d) (fst (PollUpdate_loop cn rid d iw pi ret st es))"
  by (rule PollUpdate_loop_rule[where Q = "\<lambda>tr r. at_each_point (update_desired_ends d) tr"])
     (auto simp: PollUpdate_body_def Let_def update_desired_ends_def split: body_splits)

lemma Poll_loop_event_shape:
  "at_each_point (event_shape del d) (fst (Poll_loop del cn d iw pi ret st es))"
  by (rule Poll_loop_rule[where Q = "\<lambda>tr r. at_each_point (event_shape del d) tr"])
     (auto simp: Poll_body_def Let_def event_shape_def split: body_splits)

lemma PollUpdate_loop_event_shape:
  "at_each_point update_event_shape (fst (PollUpdate_loop cn rid d iw pi ret st es))"
  by (rule PollUpdate_loop_rule[where Q = "\<lambda>tr r. at_each_point update_event_shape tr"])
     (auto simp: PollUpdate_body_def Let_def update_event_shape_def split: body_splits)

subsection \<open>The callback\<close>

lemma Poll_loop_starts:
  "fst (Poll_loop del cn d iw pi ret st es) = [] \<or>
   (\<exists>g tl. fst (Poll_loop del cn d iw pi ret st es) = CtxErr g # tl)"
  by (cases es) (auto simp: Let_def split: option.splits prod.splits flow.splits)

lemma PollUpdate_loop_starts:
  "fst (PollUpdate_loop cn rid d iw pi ret st es) = [] \<or>
   (\<exists>g tl. fst (PollUpdate_loop cn rid d iw pi ret st es) = CtxErr g # tl)"
  by (cases es) (auto simp: Let_def split: option.splits prod.splits flow.splits)

lemma Poll_loop_call_after_progress:
  "at_each_point (call_after_progress (queryFunc ret) d) (fst (Poll_loop del cn d iw pi ret st es))"
proof -
  let ?Q = "\<lambda>tr (r::bool). at_each_point (call_after_progress (queryFunc ret) d) tr
              \<and> (tr = [] \<or> (\<exists>g tl. tr = CtxErr g # tl))"
  have "?Q (fst (Poll_loop del cn d iw pi ret st es)) (snd (Poll_loop del cn d iw pi ret st es))"
    by (rule Poll_loop_rule[where Q = ?Q])
       (auto simp: Poll_body_def Let_def call_after_progress_def split: body_splits)
  then show ?thesis by simp
qed

lemma PollUpdate_loop_call_after_progress:
  "at_each_point (update_call_after_progress (queryFunc ret) d)
     (fst (PollUpdate_loop cn rid d iw pi ret st es))"
proof -
  let ?Q = "\<lambda>tr (r::bool). at_each_point (update_call_after_progress (queryFunc ret) d) tr
              \<and> (tr = [] \<or> (\<exists>g tl. tr = CtxErr g # tl))"
  have "?Q (fst (PollUpdate_loop cn rid d iw pi ret st es))
           (snd (PollUpdate_loop cn rid d iw pi ret st es))"
    by (rule PollUpdate_loop_rule[where Q = ?Q])
       (auto simp: PollUpdate_body_def Let_def update_call_after_progress_def split: body_splits)
  then show ?thesis by simp
qed

lemma Poll_loop_progress_calls:
  "at_each_point (progress_calls (queryFunc ret) d) (fst (Poll_loop del cn d iw pi ret st es))"
  by (rule Poll_loop_rule[where Q = "\<lambda>tr r. at_each_point (progress_calls (queryFunc ret) d) tr"])
     (auto simp: Poll_body_def Let_def progress_calls_def split: body_splits)

lemma PollUpdate_loop_progress_calls:
  "at_each_point (update_progress_calls (queryFunc ret) d)
     (fst (PollUpdate_loop cn rid d iw pi ret st es))"
  by (rule PollUpdate_loop_rule[where Q = "\<lambda>tr r.
        at_each_point (update_progress_calls (queryFunc ret) d) tr"])
     (auto simp: PollUpdate_body_def Let_def update_progress_calls_def split: body_splits)

subsection \<open>Ticks that are retried\<close>

lemma sends_append: "sends (xs @ ys) = sends xs @ sends ys"
  by (induction xs rule: sends.induct) auto

lemma map_snd_sent_at: "map snd (sent_at t tr) = sends tr"
  by (induction t tr rule: sent_at.induct) auto

lemma retry_trace_Nil [simp]: "retry_trace i w ev [] = []"
  by (simp add: retry_trace_def)

lemma retry_trace_Cons [simp]:
  "retry_trace i w ev (e # es) =
     CtxErr None # Select w TimerFired # Describe i (fst (api e)) (snd (api e)) # Send (ev e)
       # retry_trace i w ev es"
  by (simp add: retry_trace_def)

lemma sends_retry_trace: "sends (retry_trace i w ev es @ tr) = map ev es @ sends tr"
  by (induction es) auto

lemma Close_retry_trace: "Close \<notin> set (retry_trace i w ev es)"
  by (induction es) auto

lemma times_retry_trace:
  "map fst (sent_at t (retry_trace i w ev es @ tr)) =
     map (\<lambda>k. t + (int k + 1) * max 0 w) [0..<length es]
     @ map fst (sent_at (t + int (length es) * max 0 w) tr)"
proof (induction es arbitrary: t)
  case Nil
  show ?case by simp
next
  case (Cons e es)
  have heads: "map (\<lambda>k. t + (int k + 1) * max 0 w) [0..<Suc (length es)] =
      (t + max 0 w) # map (\<lambda>k. t + max 0 w + (int k + 1) * max 0 w) [0..<length es]"
    by (simp add: map_upt_Suc algebra_simps del: upt_Suc)
  have clock: "t + max 0 w + int (length es) * max 0 w = t + int (length (e # es)) * max 0 w"
    by (simp add: algebra_simps)
  have "map fst (sent_at t (retry_trace i w ev (e # es) @ tr)) =
      (t + max 0 w) # map fst (sent_at (t + max 0 w) (retry_trace i w ev es @ tr))"
    by simp
  also have "\<dots> = (t + max 0 w) #
      (map (\<lambda>k. t + max 0 w + (int k + 1) * max 0 w) [0..<length es]
       @ map fst (sent_at (t + max 0 w + int (length es) * max 0 w) tr))"
    by (simp only: Cons.IH)
  also have "\<dots> = map (\<lambda>k. t + (int k + 1) * max 0 w) [0..<length (e # es)]
       @ map fst (sent_at (t + int (length (e # es)) * max 0 w) tr)"
    unfolding clock using heads by simp
  finally show ?case .
qed

lemma map_first_last:
  "map f [0..<Suc (Suc n)] = f 0 # map (\<lambda>k. f (Suc k)) [0..<n] @ [f (Suc n)]"
proof -
  have "map f [0..<Suc (Suc n)] = f 0 # map (\<lambda>k. f (Suc k)) [0..<Suc n]"
    by (rule map_upt_Suc)
  then show ?thesis by simp
qed

lemma steady_state: "waitDur st = pi \<Longrightarrow> (if waitDur st = 0 then st\<lparr>waitDur := pi\<rparr> else st) = st"
  by (cases st) auto

lemma Poll_body_transient:
  "transient_tick e \<Longrightarrow>
   Poll_body del cn d iw pi ret st e =
     ([Select (waitDur st) TimerFired, Describe cn (fst (api e)) (snd (api e)),
       Send (transient_event e)],
      Continue (if waitDur st = 0 then st\<lparr>waitDur := pi\<rparr> else st))"
  by (auto simp: transient_tick_def transient_event_def Poll_body_def Let_def split: body_splits)

lemma Poll_loop_steady:
  "waitDur st = pi \<Longrightarrow> list_all transient_tick es \<Longrightarrow>
   Poll_loop del cn d iw pi ret st (es @ rest) =
     (retry_trace cn pi transient_event es @ fst (Poll_loop del cn d iw pi ret st rest),
      snd (Poll_loop del cn d iw pi ret st rest))"
proof (induction es)
  case Nil
  show ?case by simp
next
  case (Cons e es)
  then have e: "transient_tick e" and es: "list_all transient_tick es" by simp_all
  from e have g: "ctxErr e = None" by (simp add: transient_tick_def)
  have b: "Poll_body del cn d iw pi ret st e =
     ([Select pi TimerFired, Describe cn (fst (api e)) (snd (api e)), Send (transient_event e)],
      Continue st)"
    using Poll_body_transient[OF e, of del cn d iw pi ret st] steady_state[OF Cons.prems(1)]
      Cons.prems(1)
    by (simp only:)
  show ?case
    using Cons.IH[OF Cons.prems(1) es] g b by simp
qed

lemma Poll_loop_desired_tick:
  assumes "ctxErr fin = None" "interval_select fin = TimerFired" "api fin = (out, None)"
    "DescribeClusterOutput.Cluster out = Some c" "StringValue (Cluster.Status c) = d"
  shows "Poll_loop del cn d iw pi ret st [fin] =
     ([CtxErr None, Select (waitDur st) TimerFired, Describe cn out None,
       Send \<lparr>Cluster = Some c, Error = None\<rparr>, Close], True)"
  using assms by (simp add: Poll_body_def Let_def)

lemma Poll_transient_run:
  assumes es: "list_all transient_tick es"
    and fin: "ctxErr fin = None" "interval_select fin = TimerFired" "api fin = (out, None)"
      "DescribeClusterOutput.Cluster out = Some c" "StringValue (Cluster.Status c) = d"
  shows "\<not> snd (Poll del cn d iw pi opts es)
    \<and> Close \<notin> set (fst (Poll del cn d iw pi opts es))
    \<and> sends (fst (Poll del cn d iw pi opts es)) = map transient_event es
    \<and> snd (Poll del cn d iw pi opts (es @ [fin]))
    \<and> sends (fst (Poll del cn d iw pi opts (es @ [fin]))) =
        map transient_event es @ [\<lparr>Cluster = Some c, Error = None\<rparr>]
    \<and> map fst (sent_at t0 (fst (Poll del cn d iw pi opts (es @ [fin])))) =
        map (\<lambda>k. t0 + int k * max 0 pi) [0..<Suc (length es)]
    \<and> (\<exists>pre. fst (Poll del cn d iw pi opts (es @ [fin])) =
          pre @ [Send \<lparr>Cluster = Some c, Error = None\<rparr>, Close] \<and> Close \<notin> set pre)"
proof (cases es)
  case Nil
  have "Poll del cn d iw pi opts [fin] =
     ([CtxErr None, Select 0 TimerFired, Describe cn out None,
       Send \<lparr>Cluster = Some c, Error = None\<rparr>, Close], True)"
    using Poll_loop_desired_tick[OF fin, of del cn iw pi _ "\<lparr>waitDur = 0, first = True\<rparr>"]
    by (simp add: Poll_def)
  moreover have "Poll del cn d iw pi opts [] = ([], False)"
    by (simp add: Poll_def)
  moreover have "\<exists>pre. [CtxErr None, Select 0 TimerFired, Describe cn out None,
       Send \<lparr>Cluster = Some c, Error = None\<rparr>, Close] =
         pre @ [Send \<lparr>Cluster = Some c, Error = None\<rparr>, Close] \<and> Close \<notin> set pre"
    by (rule exI[of _ "[CtxErr None, Select 0 TimerFired, Describe cn out None]"]) simp
  ultimately show ?thesis using Nil by simp
next
  case (Cons e es')
  let ?ret = "applyOpts \<lparr>queryFunc = None\<rparr> opts"
  let ?st1 = "\<lparr>waitDur = pi, first = True\<rparr>"
  let ?head = "[CtxErr None, Select 0 TimerFired, Describe cn (fst (api e)) (snd (api e)),
       Send (transient_event e)] :: Poll_action list"
  let ?last = "[CtxErr None, Select pi TimerFired, Describe cn out None,
       Send \<lparr>Cluster = Some c, Error = None\<rparr>, Close] :: Poll_action list"
  from es Cons have e: "transient_tick e" and es': "list_all transient_tick es'" by simp_all
  from e have g: "ctxErr e = None" by (simp add: transient_tick_def)
  have run: "Poll del cn d iw pi opts (es @ rest) =
      (?head @ retry_trace cn pi transient_event es' @ fst (Poll_loop del cn d iw pi ?ret ?st1 rest),
       snd (Poll_loop del cn d iw pi ?ret ?st1 rest))" for rest
    using Poll_loop_steady[OF _ es', of ?st1 pi del cn d iw ?ret rest] g
    by (simp add: Poll_def Cons Poll_body_transient[OF e])
  have r1: "Poll del cn d iw pi opts es = (?head @ retry_trace cn pi transient_event es', False)"
    using run[of "[]"] by simp
  have r2: "Poll del cn d iw pi opts (es @ [fin]) =
      (?head @ retry_trace cn pi transient_event es' @ ?last, True)"
    using run[of "[fin]"] Poll_loop_desired_tick[OF fin, of del cn iw pi ?ret ?st1] by simp
  have s1: "sends (?head @ retry_trace cn pi transient_event es') = map transient_event es"
    using sends_retry_trace[of cn pi transient_event es' "[]"] by (simp add: Cons)
  have s2: "sends (?head @ retry_trace cn pi transient_event es' @ ?last) =
      map transient_event es @ [\<lparr>Cluster = Some c, Error = None\<rparr>]"
    using sends_retry_trace[of cn pi transient_event es' ?last] by (simp add: Cons)
  have c1: "Close \<notin> set (?head @ retry_trace cn pi transient_event es')"
    using Close_retry_trace[of cn pi transient_event es'] by simp
  have "map (\<lambda>k. t0 + int k * max 0 pi) [0..<Suc (Suc (length es'))] =
      t0 # map (\<lambda>k. t0 + (int k + 1) * max 0 pi) [0..<length es']
         @ [t0 + int (length es') * max 0 pi + max 0 pi]"
    using map_first_last[of "\<lambda>k. t0 + int k * max 0 pi" "length es'"]
    by (simp add: algebra_simps del: upt_Suc)
  then have t2: "map fst (sent_at t0 (?head @ retry_trace cn pi transient_event es' @ ?last)) =
      map (\<lambda>k. t0 + int k * max 0 pi) [0..<Suc (length es)]"
    using times_retry_trace[of t0 cn pi transient_event es' ?last]
    by (simp add: Cons del: upt_Suc)
  have e2: "\<exists>pre. ?head @ retry_trace cn pi transient_event es' @ ?last =
      pre @ [Send \<lparr>Cluster = Some c, Error = None\<rparr>, Close] \<and> Close \<notin> set pre"
    using c1
    by (intro exI[of _ "?head @ retry_trace cn pi transient_event es'
          @ [CtxErr None, Select pi TimerFired, Describe cn out None]"]) simp
  show ?thesis
    unfolding r1 r2 fst_conv snd_conv
    using s1 s2 c1 t2 e2 by blast
qed

lemma PollUpdate_body_transient:
  "update_transient_tick e \<Longrightarrow>
   PollUpdate_body cn rid d iw pi ret st e =
     ([Select (waitDur st) TimerFired, Describe (cn, rid) (fst (api e)) (snd (api e)),
       Send (update_transient_event e)],
      Continue (if waitDur st = 0 then st\<lparr>waitDur := pi\<rparr> else st))"
  by (auto simp: update_transient_tick_def update_transient_event_def PollUpdate_body_def Let_def split: body_splits)

lemma PollUpdate_loop_steady:
  "waitDur st = pi \<Longrightarrow> list_all update_transient_tick es \<Longrightarrow>
   PollUpdate_loop cn rid d iw pi ret st (es @ rest) =
     (retry_trace (cn, rid) pi update_transient_event es @ fst (PollUpdate_loop cn rid d iw pi ret st rest),
      snd (PollUpdate_loop cn rid d iw pi ret st rest))"
proof (induction es)
  case Nil
  show ?case by simp
next
  case (Cons e es)
  then have e: "update_transient_tick e" and es: "list_all update_transient_tick es" by simp_all
  from e have g: "ctxErr e = None" by (simp add: update_transient_tick_def)
  have b: "PollUpdate_body cn rid d iw pi ret st e =
     ([Select pi TimerFired, Describe (cn, rid) (fst (api e)) (snd (api e)), Send (update_transient_event e)],
      Continue st)"
    using PollUpdate_body_transient[OF e, of cn rid d iw pi ret st] steady_state[OF Cons.prems(1)]
      Cons.prems(1)
    by (simp only:)
  show ?case
    using Cons.IH[OF Cons.prems(1) es] g b by simp
qed

lemma PollUpdate_loop_desired_tick:
  assumes "ctxErr fin = None" "interval_select fin = TimerFired" "api fin = (out, None)"
    "DescribeUpdateOutput.Update out = Some c" "StringValue (Update.Status c) = d"
  shows "PollUpdate_loop cn rid d iw pi ret st [fin] =
     ([CtxErr None, Select (waitDur st) TimerFired, Describe (cn, rid) out None,
       Send \<lparr>Update = Some c, Error = None\<rparr>, Close], True)"
  using assms by (simp add: PollUpdate_body_def Let_def)

lemma PollUpdate_transient_run:
  assumes es: "list_all update_transient_tick es"
    and fin: "ctxErr fin = None" "interval_select fin = TimerFired" "api fin = (out, None)"
      "DescribeUpdateOutput.Update out = Some c" "StringValue (Update.Status c) = d"
  shows "\<not> snd (PollUpdate cn rid d iw pi opts es)
    \<and> Close \<notin> set (fst (PollUpdate cn rid d iw pi opts es))
    \<and> sends (fst (PollUpdate cn rid d iw pi opts es)) = map update_transient_event es
    \<and> snd (PollUpdate cn rid d iw pi opts (es @ [fin]))
    \<and> sends (fst (PollUpdate cn rid d iw pi opts (es @ [fin]))) =
        map update_transient_event es @ [\<lparr>Update = Some c, Error = None\<rparr>]
    \<and> map fst (sent_at t0 (fst (PollUpdate cn rid d iw pi opts (es @ [fin])))) =
        map (\<lambda>k. t0 + int k * max 0 pi) [0..<Suc (length es)]
    \<and> (\<exists>pre. fst (PollUpdate cn rid d iw pi opts (es @ [fin])) =
          pre @ [Send \<lparr>Update = Some c, Error = None\<rparr>, Close] \<and> Close \<notin> set pre)"
proof (cases es)
  case Nil
  have "PollUpdate cn rid d iw pi opts [fin] =
     ([CtxErr None, Select 0 TimerFired, Describe (cn, rid) out None,
       Send \<lparr>Update = Some c, Error = None\<rparr>, Close], True)"
    using PollUpdate_loop_desired_tick[OF fin, of cn rid iw pi _ "\<lparr>waitDur = 0, first = True\<rparr>"]
    by (simp add: PollUpdate_def)
  moreover have "PollUpdate cn rid d iw pi opts [] = ([], False)"
    by (simp add: PollUpdate_def)
  moreover have "\<exists>pre. [CtxErr None, Select 0 TimerFired, Describe (cn, rid) out None,
       Send \<lparr>Update = Some c, Error = None\<rparr>, Close] =
         pre @ [Send \<lparr>Update = Some c, Error = None\<rparr>, Close] \<and> Close \<notin> set pre"
    by (rule exI[of _ "[CtxErr None, Select 0 TimerFired, Describe (cn, rid) out None]"]) simp
  ultimately show ?thesis using Nil by simp
next
  case (Cons e es')
  let ?ret = "applyOpts \<lparr>queryFunc = None\<rparr> opts"
  let ?st1 = "\<lparr>waitDur = pi, first = True\<rparr>"
  let ?head = "[CtxErr None, Select 0 TimerFired, Describe (cn, rid) (fst (api e)) (snd (api e)),
       Send (update_transient_event e)] :: PollUpdate_action list"
  let ?last = "[CtxErr None, Select pi TimerFired, Describe (cn, rid) out None,
       Send \<lparr>Update = Some c, Error = None\<rparr>, Close] :: PollUpdate_action list"
  from es Cons have e: "update_transient_tick e" and es': "list_all update_transient_tick es'" by simp_all
  from e have g: "ctxErr e = None" by (simp add: update_transient_tick_def)
  have run: "PollUpdate cn rid d iw pi opts (es @ rest) =
      (?head @ retry_trace (cn, rid) pi update_transient_event es' @ fst (PollUpdate_loop cn rid d iw pi ?ret ?st1 rest),
       snd (PollUpdate_loop cn rid d iw pi ?ret ?st1 rest))" for rest
    using PollUpdate_loop_steady[OF _ es', of ?st1 pi cn rid d iw ?ret rest] g
    by (simp add: PollUpdate_def Cons PollUpdate_body_transient[OF e])
  have r1: "PollUpdate cn rid d iw pi opts es = (?head @ retry_trace (cn, rid) pi update_transient_event es', False)"
    using run[of "[]"] by simp
  have r2: "PollUpdate cn rid d iw pi opts (es @ [fin]) =
      (?head @ retry_trace (cn, rid) pi update_transient_event es' @ ?last, True)"
    using run[of "[fin]"] PollUpdate_loop_desired_tick[OF fin, of cn rid iw pi ?ret ?st1] by simp
  have s1: "sends (?head @ retry_trace (cn, rid) pi update_transient_event es') = map update_transient_event es"
    using sends_retry_trace[of "(cn, rid)" pi update_transient_event es' "[]"] by (simp add: Cons)
  have s2: "sends (?head @ retry_trace (cn, rid) pi update_transient_event es' @ ?last) =
      map update_transient_event es @ [\<lparr>Update = Some c, Error = None\<rparr>]"
    using sends_retry_trace[of "(cn, rid)" pi update_transient_event es' ?last] by (simp add: Cons)
  have c1: "Close \<notin> set (?head @ retry_trace (cn, rid) pi update_transient_event es')"
    using Close_retry_trace[of "(cn, rid)" pi update_transient_event es'] by simp
  have "map (\<lambda>k. t0 + int k * max 0 pi) [0..<Suc (Suc (length es'))] =
      t0 # map (\<lambda>k. t0 + (int k + 1) * max 0 pi) [0..<length es']
         @ [t0 + int (length es') * max 0 pi + max 0 pi]"
    using map_first_last[of "\<lambda>k. t0 + int k * max 0 pi" "length es'"]
    by (simp add: algebra_simps del: upt_Suc)
  then have t2: "map fst (sent_at t0 (?head @ retry_trace (cn, rid) pi update_transient_event es' @ ?last)) =
      map (\<lambda>k. t0 + int k * max 0 pi) [0..<Suc (length es)]"
    using times_retry_trace[of t0 "(cn, rid)" pi update_transient_event es' ?last]
    by (simp add: Cons del: upt_Suc)
  have e2: "\<exists>pre. ?head @ retry_trace (cn, rid) pi update_transient_event es' @ ?last =
      pre @ [Send \<lparr>Update = Some c, Error = None\<rparr>, Close] \<and> Close \<notin> set pre"
    using c1
    by (intro exI[of _ "?head @ retry_trace (cn, rid) pi update_transient_event es'
          @ [CtxErr None, Select pi TimerFired, Describe (cn, rid) out None]"]) simp
  show ?thesis
    unfolding r1 r2 fst_conv snd_conv
    using s1 s2 c1 t2 e2 by blast
qed

lemma Poll_loop_retried:
  "at_each_point retried (fst (Poll_loop del cn d iw pi ret st es))"
proof -
  let ?Q = "\<lambda>tr (r::bool). at_each_point retried tr \<and> back_at_guard tr"
  have "?Q (fst (Poll_loop del cn d iw pi ret st es)) (snd (Poll_loop del cn d iw pi ret st es))"
    by (rule Poll_loop_rule[where Q = ?Q])
       (auto simp: Poll_body_def Let_def retried_def split: body_splits)
  then show ?thesis by simp
qed

lemma PollUpdate_loop_retried:
  "at_each_point update_retried (fst (PollUpdate_loop cn rid d iw pi ret st es))"
proof -
  let ?Q = "\<lambda>tr (r::bool). at_each_point update_retried tr \<and> back_at_guard tr"
  have "?Q (fst (PollUpdate_loop cn rid d iw pi ret st es))
           (snd (PollUpdate_loop cn rid d iw pi ret st es))"
    by (rule PollUpdate_loop_rule[where Q = ?Q])
       (auto simp: PollUpdate_body_def Let_def update_retried_def split: body_splits)
  then show ?thesis by simp
qed

lemma Poll_retried_at:
  assumes run: "Poll del cn d iw pi opts script = (tr, returned)"
    and at: "tr = pre @ Describe i out err # post"
  shows "(\<forall>er. err = Some er \<longrightarrow> \<not> IsDeleted (Some er) \<longrightarrow>
            (\<exists>post'. post = Send \<lparr>Cluster = None, Error = Some er\<rparr> # post' \<and> back_at_guard post'))
       \<and> (err = None \<longrightarrow> DescribeClusterOutput.Cluster out = None \<longrightarrow>
            (\<exists>post'. post = Send \<lparr>Cluster = None, Error = Some (ErrorString
                  (''unexpected empty response '' @ DescribeClusterOutput.GoString out))\<rparr> # post'
               \<and> back_at_guard post'))"
proof -
  from run have tr: "tr = fst (Poll_loop del cn d iw pi (applyOpts \<lparr>queryFunc = None\<rparr> opts)
      \<lparr>waitDur = 0, first = True\<rparr> script)"
    by (simp add: Poll_def)
  have "retried (Describe i out err) post"
    using at_each_pointD[OF Poll_loop_retried] tr at by metis
  then show ?thesis
    by (auto simp: retried_def split: list.splits option.splits if_splits)
qed

lemma PollUpdate_retried_at:
  assumes run: "PollUpdate cn rid d iw pi opts script = (tr, returned)"
    and at: "tr = pre @ Describe i out err # post"
  shows "(\<forall>er. err = Some er \<longrightarrow> \<not> updateNotExists (Some er) \<longrightarrow>
            (\<exists>post'. post = Send \<lparr>Update = None, Error = Some er\<rparr> # post' \<and> back_at_guard post'))
       \<and> (err = None \<longrightarrow> DescribeUpdateOutput.Update out = None \<longrightarrow>
            (\<exists>post'. post = Send \<lparr>Update = None, Error = Some (ErrorString
                  (''unexpected empty response '' @ DescribeUpdateOutput.GoString out))\<rparr> # post'
               \<and> back_at_guard post'))"
proof -
  from run have tr: "tr = fst (PollUpdate_loop cn rid d iw pi (applyOpts \<lparr>queryFunc = None\<rparr> opts)
      \<lparr>waitDur = 0, first = True\<rparr> script)"
    by (simp add: PollUpdate_def)
  have "update_retried (Describe i out err) post"
    using at_each_pointD[OF PollUpdate_loop_retried] tr at by metis
  then show ?thesis
    by (auto simp: update_retried_def split: list.splits option.splits if_splits)
qed

subsection \<open>Evaluating concrete runs\<close>

lemmas run_simps =
  Poll_def Poll_body_def PollUpdate_def PollUpdate_body_def applyOpts_def WithQueryFunc_def
  StringValue_def ClusterStatusFailed_def UpdateStatusCancelled_def UpdateStatusFailed_def
  quoted_def Let_def HasPrefix_def
  cluster_tick_def cluster_error_tick_def update_tick_def update_error_tick_def
  cluster_not_found_def update_not_found_def throttled_def second_def

lemma IsDeleted_cluster_not_found: "IsDeleted (Some cluster_not_found)"
  by (simp add: cluster_not_found_def HasPrefix_def)

lemma updateNotExists_update_not_found: "updateNotExists (Some update_not_found)"
  by (simp add: update_not_found_def HasPrefix_def)

lemma not_IsDeleted_throttled: "\<not> IsDeleted (Some throttled)"
  by (simp add: throttled_def HasPrefix_def)

lemma not_updateNotExists_throttled: "\<not> updateNotExists (Some throttled)"
  by (simp add: throttled_def HasPrefix_def)

section \<open>The claims\<close>

text \<open>
  C1. In every run of \<open>Poll\<close> and of \<open>PollUpdate\<close>, whatever the environment does: a run that
  has returned closed the channel exactly once, the close is its last action and comes
  right after the last event, so nothing is sent after it; a run that has not returned
  has not closed the channel.
\<close>

theorem C1_closed_exactly_once:
  "(Poll del cn d iw pi opts script = (tr, returned) \<longrightarrow>
      (if returned
       then (\<exists>pre ev. tr = pre @ [Send ev, Close] \<and> Close \<notin> set pre) \<and> count_list tr Close = 1
       else Close \<notin> set tr))
   \<and> (PollUpdate cn rid ud iw pi opts uscript = (utr, ureturned) \<longrightarrow>
      (if ureturned
       then (\<exists>pre ev. utr = pre @ [Send ev, Close] \<and> Close \<notin> set pre) \<and> count_list utr Close = 1
       else Close \<notin> set utr))"
proof (intro conjI impI)
  assume run: "Poll del cn d iw pi opts script = (tr, returned)"
  show "if returned
       then (\<exists>pre ev. tr = pre @ [Send ev, Close] \<and> Close \<notin> set pre) \<and> count_list tr Close = 1
       else Close \<notin> set tr"
    using Poll_loop_closes[of del cn d iw pi "applyOpts \<lparr>queryFunc = None\<rparr> opts"
        "\<lparr>waitDur = 0, first = True\<rparr>" script] run closes_count[of tr]
    by (auto simp: Poll_def closes_def split: if_splits)
next
  assume run: "PollUpdate cn rid ud iw pi opts uscript = (utr, ureturned)"
  show "if ureturned
       then (\<exists>pre ev. utr = pre @ [Send ev, Close] \<and> Close \<notin> set pre) \<and> count_list utr Close = 1
       else Close \<notin> set utr"
    using PollUpdate_loop_closes[of cn rid ud iw pi "applyOpts \<lparr>queryFunc = None\<rparr> opts"
        "\<lparr>waitDur = 0, first = True\<rparr>" uscript] run closes_count[of utr]
    by (auto simp: PollUpdate_def closes_def split: if_splits)
qed

theorem C1_witness:
  "snd (Poll ''DELETED/NOT-EXIST'' ''c'' ''ACTIVE'' (30 * second) (5 * second) []
          [cluster_tick ''CREATING'', cluster_tick ''ACTIVE''])
   \<and> count_list (fst (Poll ''DELETED/NOT-EXIST'' ''c'' ''ACTIVE'' (30 * second) (5 * second) []
          [cluster_tick ''CREATING'', cluster_tick ''ACTIVE''])) Close = 1
   \<and> \<not> snd (Poll ''DELETED/NOT-EXIST'' ''c'' ''ACTIVE'' (30 * second) (5 * second) []
          [cluster_tick ''CREATING''])
   \<and> Close \<notin> set (fst (Poll ''DELETED/NOT-EXIST'' ''c'' ''ACTIVE'' (30 * second) (5 * second) []
          [cluster_tick ''CREATING'']))
   \<and> snd (PollUpdate ''c'' ''u'' ''Successful'' (30 * second) (5 * second) []
          [update_tick ''InProgress'', update_tick ''Failed''])
   \<and> count_list (fst (PollUpdate ''c'' ''u'' ''Successful'' (30 * second) (5 * second) []
          [update_tick ''InProgress'', update_tick ''Failed''])) Close = 1"
proof -
  obtain tr where r1: "Poll ''DELETED/NOT-EXIST'' ''c'' ''ACTIVE'' (30 * second) (5 * second) []
          [cluster_tick ''CREATING'', cluster_tick ''ACTIVE''] = (tr, True)"
    by (simp add: run_simps)
  obtain tr' where r2: "Poll ''DELETED/NOT-EXIST'' ''c'' ''ACTIVE'' (30 * second) (5 * second) []
          [cluster_tick ''CREATING''] = (tr', False)"
    by (simp add: run_simps)
  obtain utr where r3: "PollUpdate ''c'' ''u'' ''Successful'' (30 * second) (5 * second) []
          [update_tick ''InProgress'', update_tick ''Failed''] = (utr, True)"
    by (simp add: run_simps)
  from C1_closed_exactly_once[THEN conjunct1, rule_format, OF r1]
  have "count_list tr Close = 1" by simp
  moreover from C1_closed_exactly_once[THEN conjunct1, rule_format, OF r2]
  have "Close \<notin> set tr'" by simp
  moreover from C1_closed_exactly_once[THEN conjunct2, rule_format, OF r3]
  have "count_list utr Close = 1" by simp
  ultimately show ?thesis using r1 r2 r3 by simp
qed

text \<open>
  C3. In every run of \<open>Poll\<close>, after a describe call whose error is classified as absence:
  when the desired status is the deleted one, the run sends one event with nil cluster and
  nil error, closes and returns; otherwise it sends the query error, closes and returns.
  In both cases nothing else follows, so no further call is made.
\<close>

theorem C3_absence_ends_the_run:
  assumes run: "Poll del cn d iw pi opts script = (tr, returned)"
    and at: "tr = pre @ Describe i out (Some er) # post"
    and absent: "IsDeleted (Some er)"
  shows "returned
    \<and> (d = del \<longrightarrow> post = [Send \<lparr>Cluster = None, Error = None\<rparr>, Close])
    \<and> (d \<noteq> del \<longrightarrow> post = [Send \<lparr>Cluster = None, Error = Some er\<rparr>, Close])"
proof -
  from run have tr: "tr = fst (Poll_loop del cn d iw pi (applyOpts \<lparr>queryFunc = None\<rparr> opts)
      \<lparr>waitDur = 0, first = True\<rparr> script)"
    by (simp add: Poll_def)
  have "absent_ends del d (Describe i out (Some er)) post"
    using at_each_pointD[OF Poll_loop_absent] tr at by metis
  with absent have post:
    "post = [Send \<lparr>Cluster = None, Error = (if d = del then None else Some er)\<rparr>, Close]"
    by (simp add: absent_ends_def)
  then have "Close \<in> set tr" using at by simp
  then have returned by (rule Poll_closed_returned[OF run])
  with post show ?thesis by simp
qed

theorem C3_witness:
  "IsDeleted (Some cluster_not_found)
   \<and> Poll ''DELETED/NOT-EXIST'' ''c'' ''DELETED/NOT-EXIST'' (30 * second) (5 * second) []
        [cluster_error_tick cluster_not_found] =
      ([CtxErr None, Select 0 TimerFired,
        Describe ''c'' \<lparr>DescribeClusterOutput.Cluster = None, DescribeClusterOutput.GoString = ''{}''\<rparr>
          (Some cluster_not_found),
        Send \<lparr>Cluster = None, Error = None\<rparr>, Close], True)
   \<and> Poll ''DELETED/NOT-EXIST'' ''c'' ''ACTIVE'' (30 * second) (5 * second) []
        [cluster_tick ''CREATING'', cluster_error_tick cluster_not_found, cluster_tick ''ACTIVE''] =
      ([CtxErr None, Select 0 TimerFired,
        Describe ''c'' \<lparr>DescribeClusterOutput.Cluster = Some \<lparr>Name = Some ''c'', Status = Some ''CREATING''\<rparr>,
                        DescribeClusterOutput.GoString = ''{}''\<rparr> None,
        Send \<lparr>Cluster = Some \<lparr>Name = Some ''c'', Status = Some ''CREATING''\<rparr>, Error = None\<rparr>,
        Select (30 * second) TimerFired,
        CtxErr None, Select (5 * second) TimerFired,
        Describe ''c'' \<lparr>DescribeClusterOutput.Cluster = None, DescribeClusterOutput.GoString = ''{}''\<rparr>
          (Some cluster_not_found),
        Send \<lparr>Cluster = None, Error = Some cluster_not_found\<rparr>, Close], True)"
proof -
  let ?out = "\<lparr>DescribeClusterOutput.Cluster = None, DescribeClusterOutput.GoString = ''{}''\<rparr>"
  obtain tr1 pre1 post1 where r1:
      "Poll ''DELETED/NOT-EXIST'' ''c'' ''DELETED/NOT-EXIST'' (30 * second) (5 * second) []
         [cluster_error_tick cluster_not_found] = (tr1, True)"
    and a1: "tr1 = pre1 @ Describe ''c'' ?out (Some cluster_not_found) # post1"
    and p1: "pre1 = [CtxErr None, Select 0 TimerFired]"
    by (simp add: run_simps)
  obtain tr2 pre2 post2 where r2:
      "Poll ''DELETED/NOT-EXIST'' ''c'' ''ACTIVE'' (30 * second) (5 * second) []
         [cluster_tick ''CREATING'', cluster_error_tick cluster_not_found, cluster_tick ''ACTIVE'']
       = (tr2, True)"
    and a2: "tr2 = pre2 @ Describe ''c'' ?out (Some cluster_not_found) # post2"
    and p2: "pre2 = [CtxErr None, Select 0 TimerFired,
        Describe ''c'' \<lparr>DescribeClusterOutput.Cluster = Some \<lparr>Name = Some ''c'', Status = Some ''CREATING''\<rparr>,
                        DescribeClusterOutput.GoString = ''{}''\<rparr> None,
        Send \<lparr>Cluster = Some \<lparr>Name = Some ''c'', Status = Some ''CREATING''\<rparr>, Error = None\<rparr>,
        Select (30 * second) TimerFired,
        CtxErr None, Select (5 * second) TimerFired]"
    by (simp add: run_simps)
  from C3_absence_ends_the_run[OF r1 a1 IsDeleted_cluster_not_found]
  have "post1 = [Send \<lparr>Cluster = None, Error = None\<rparr>, Close]" by simp
  moreover from C3_absence_ends_the_run[OF r2 a2 IsDeleted_cluster_not_found]
  have "post2 = [Send \<lparr>Cluster = None, Error = Some cluster_not_found\<rparr>, Close]" by simp
  ultimately show ?thesis
    using r1 a1 p1 r2 a2 p2 IsDeleted_cluster_not_found by simp
qed

text \<open>
  C6. In every run of \<open>Poll\<close> and of \<open>PollUpdate\<close>, at every \<open>select\<close> (the wait for the
  interval and the initial wait): when the cancellation case is taken, the run sends the
  context's error, closes and returns; when the stop case is taken, it sends the error
  \<open>wait stopped\<close>, closes and returns. Nothing else follows, so no further call is made. The
  texts of the context's error, of the stop error and of the errors sent with a failure
  status differ from each other.
\<close>

theorem C6_cancel_and_stop:
  "(Poll del cn d iw pi opts script = (tr, returned) \<longrightarrow> tr = pre @ Select w r # post \<longrightarrow>
      (r = CtxDone c \<longrightarrow>
         returned \<and> post = [Send \<lparr>Cluster = None, Error = Some (ContextErr c)\<rparr>, Close])
    \<and> (r = StopRecv \<longrightarrow>
         returned \<and> post = [Send \<lparr>Cluster = None, Error = Some (ErrorString ''wait stopped'')\<rparr>, Close]))
   \<and> (PollUpdate cn rid ud iw pi opts uscript = (utr, ureturned) \<longrightarrow>
        utr = upre @ Select w r # upost \<longrightarrow>
      (r = CtxDone c \<longrightarrow>
         ureturned \<and> upost = [Send \<lparr>Update = None, Error = Some (ContextErr c)\<rparr>, Close])
    \<and> (r = StopRecv \<longrightarrow>
         ureturned \<and> upost = [Send \<lparr>Update = None, Error = Some (ErrorString ''wait stopped'')\<rparr>, Close]))
   \<and> ErrorText (ContextErr c) \<noteq> ErrorText (ErrorString ''wait stopped'')
   \<and> ErrorText (ContextErr c) \<noteq>
        ErrorText (ErrorString (''unexpected cluster status '' @ quoted ClusterStatusFailed))
   \<and> ErrorText (ErrorString ''wait stopped'') \<noteq>
        ErrorText (ErrorString (''unexpected cluster status '' @ quoted ClusterStatusFailed))
   \<and> ErrorText (ContextErr c) \<noteq>
        ErrorText (ErrorString (''unexpected cluster update status '' @ quoted s))
   \<and> ErrorText (ErrorString ''wait stopped'') \<noteq>
        ErrorText (ErrorString (''unexpected cluster update status '' @ quoted s))"
proof -
  have poll: "returned \<and> post = [Send \<lparr>Cluster = None, Error = Some e\<rparr>, Close]"
    if run: "Poll del cn d iw pi opts script = (tr, returned)"
      and at: "tr = pre @ Select w r # post"
      and r: "r = CtxDone c \<and> e = ContextErr c \<or> r = StopRecv \<and> e = ErrorString ''wait stopped''"
    for e
  proof -
    from run have tr: "tr = fst (Poll_loop del cn d iw pi (applyOpts \<lparr>queryFunc = None\<rparr> opts)
        \<lparr>waitDur = 0, first = True\<rparr> script)"
      by (simp add: Poll_def)
    have "abort_ends (\<lambda>err. \<lparr>Cluster = None, Error = Some err\<rparr>) (Select w r) post"
      using at_each_pointD[OF Poll_loop_abort] tr at by metis
    with r have post: "post = [Send \<lparr>Cluster = None, Error = Some e\<rparr>, Close]"
      by (auto simp: abort_ends_def)
    then have "Close \<in> set tr" using at by simp
    then have returned by (rule Poll_closed_returned[OF run])
    with post show ?thesis by simp
  qed
  have upd: "ureturned \<and> upost = [Send \<lparr>Update = None, Error = Some e\<rparr>, Close]"
    if run: "PollUpdate cn rid ud iw pi opts uscript = (utr, ureturned)"
      and at: "utr = upre @ Select w r # upost"
      and r: "r = CtxDone c \<and> e = ContextErr c \<or> r = StopRecv \<and> e = ErrorString ''wait stopped''"
    for e
  proof -
    from run have tr: "utr = fst (PollUpdate_loop cn rid ud iw pi
        (applyOpts \<lparr>queryFunc = None\<rparr> opts) \<lparr>waitDur = 0, first = True\<rparr> uscript)"
      by (simp add: PollUpdate_def)
    have "abort_ends (\<lambda>err. \<lparr>Update = None, Error = Some err\<rparr>) (Select w r) upost"
      using at_each_pointD[OF PollUpdate_loop_abort] tr at by metis
    with r have post: "upost = [Send \<lparr>Update = None, Error = Some e\<rparr>, Close]"
      by (auto simp: abort_ends_def)
    then have "Close \<in> set utr" using at by simp
    then have ureturned by (rule PollUpdate_closed_returned[OF run])
    with post show ?thesis by simp
  qed
  have texts: "ErrorText (ContextErr c) \<noteq> ''wait stopped''"
    "ErrorText (ContextErr c) \<noteq> ''unexpected cluster status '' @ quoted ClusterStatusFailed"
    "''wait stopped'' \<noteq> ''unexpected cluster status '' @ quoted ClusterStatusFailed"
    "ErrorText (ContextErr c) \<noteq> ''unexpected cluster update status '' @ quoted s"
    "''wait stopped'' \<noteq> ''unexpected cluster update status '' @ quoted s"
    by (cases c; simp add: quoted_def ClusterStatusFailed_def)+
  have p1: "Poll del cn d iw pi opts script = (tr, returned) \<longrightarrow> tr = pre @ Select w r # post \<longrightarrow>
      (r = CtxDone c \<longrightarrow>
         returned \<and> post = [Send \<lparr>Cluster = None, Error = Some (ContextErr c)\<rparr>, Close])
    \<and> (r = StopRecv \<longrightarrow>
         returned \<and> post = [Send \<lparr>Cluster = None, Error = Some (ErrorString ''wait stopped'')\<rparr>, Close])"
    using poll[of "ContextErr c"] poll[of "ErrorString ''wait stopped''"] by blast
  have p2: "PollUpdate cn rid ud iw pi opts uscript = (utr, ureturned) \<longrightarrow>
        utr = upre @ Select w r # upost \<longrightarrow>
      (r = CtxDone c \<longrightarrow>
         ureturned \<and> upost = [Send \<lparr>Update = None, Error = Some (ContextErr c)\<rparr>, Close])
    \<and> (r = StopRecv \<longrightarrow>
         ureturned \<and> upost = [Send \<lparr>Update = None, Error = Some (ErrorString ''wait stopped'')\<rparr>, Close])"
    using upd[of "ContextErr c"] upd[of "ErrorString ''wait stopped''"] by blast
  from texts have t: "ErrorText (ContextErr c) \<noteq> ErrorText (ErrorString ''wait stopped'')
   \<and> ErrorText (ContextErr c) \<noteq>
        ErrorText (ErrorString (''unexpected cluster status '' @ quoted ClusterStatusFailed))
   \<and> ErrorText (ErrorString ''wait stopped'') \<noteq>
        ErrorText (ErrorString (''unexpected cluster status '' @ quoted ClusterStatusFailed))
   \<and> ErrorText (ContextErr c) \<noteq>
        ErrorText (ErrorString (''unexpected cluster update status '' @ quoted s))
   \<and> ErrorText (ErrorString ''wait stopped'') \<noteq>
        ErrorText (ErrorString (''unexpected cluster update status '' @ quoted s))"
    by simp
  show ?thesis by (rule conjI[OF p1 conjI[OF p2 t]])
qed

theorem C6_witness:
  "Poll ''DELETED/NOT-EXIST'' ''c'' ''ACTIVE'' (30 * second) (5 * second) []
     [(cluster_tick ''CREATING'')\<lparr>initial_select := CtxDone DeadlineExceeded\<rparr>, cluster_tick ''ACTIVE''] =
     ([CtxErr None, Select 0 TimerFired,
       Describe ''c'' \<lparr>DescribeClusterOutput.Cluster = Some \<lparr>Name = Some ''c'', Status = Some ''CREATING''\<rparr>,
                       DescribeClusterOutput.GoString = ''{}''\<rparr> None,
       Send \<lparr>Cluster = Some \<lparr>Name = Some ''c'', Status = Some ''CREATING''\<rparr>, Error = None\<rparr>,
       Select (30 * second) (CtxDone DeadlineExceeded),
       Send \<lparr>Cluster = None, Error = Some (ContextErr DeadlineExceeded)\<rparr>, Close], True)
   \<and> PollUpdate ''c'' ''u'' ''Successful'' (30 * second) (5 * second) []
     [update_tick ''InProgress'', (update_tick ''InProgress'')\<lparr>interval_select := StopRecv\<rparr>,
      update_tick ''Successful''] =
     ([CtxErr None, Select 0 TimerFired,
       Describe (''c'', ''u'')
         \<lparr>DescribeUpdateOutput.Update =
            Some \<lparr>Id = Some ''u'', Status = Some ''InProgress'', Type = Some ''VersionUpdate''\<rparr>,
          DescribeUpdateOutput.GoString = ''{}''\<rparr> None,
       Send \<lparr>Update = Some \<lparr>Id = Some ''u'', Status = Some ''InProgress'', Type = Some ''VersionUpdate''\<rparr>,
             Error = None\<rparr>,
       Select (30 * second) TimerFired,
       CtxErr None, Select (5 * second) StopRecv,
       Send \<lparr>Update = None, Error = Some (ErrorString ''wait stopped'')\<rparr>, Close], True)"
proof -
  obtain tr pre post where r1:
      "Poll ''DELETED/NOT-EXIST'' ''c'' ''ACTIVE'' (30 * second) (5 * second) []
        [(cluster_tick ''CREATING'')\<lparr>initial_select := CtxDone DeadlineExceeded\<rparr>,
         cluster_tick ''ACTIVE''] = (tr, True)"
    and a1: "tr = pre @ Select (30 * second) (CtxDone DeadlineExceeded) # post"
    and p1: "pre = [CtxErr None, Select 0 TimerFired,
       Describe ''c'' \<lparr>DescribeClusterOutput.Cluster = Some \<lparr>Name = Some ''c'', Status = Some ''CREATING''\<rparr>,
                       DescribeClusterOutput.GoString = ''{}''\<rparr> None,
       Send \<lparr>Cluster = Some \<lparr>Name = Some ''c'', Status = Some ''CREATING''\<rparr>, Error = None\<rparr>]"
    by (simp add: run_simps)
  obtain utr upre upost where r2:
      "PollUpdate ''c'' ''u'' ''Successful'' (30 * second) (5 * second) []
        [update_tick ''InProgress'', (update_tick ''InProgress'')\<lparr>interval_select := StopRecv\<rparr>,
         update_tick ''Successful''] = (utr, True)"
    and a2: "utr = upre @ Select (5 * second) StopRecv # upost"
    and p2: "upre = [CtxErr None, Select 0 TimerFired,
       Describe (''c'', ''u'')
         \<lparr>DescribeUpdateOutput.Update =
            Some \<lparr>Id = Some ''u'', Status = Some ''InProgress'', Type = Some ''VersionUpdate''\<rparr>,
          DescribeUpdateOutput.GoString = ''{}''\<rparr> None,
       Send \<lparr>Update = Some \<lparr>Id = Some ''u'', Status = Some ''InProgress'', Type = Some ''VersionUpdate''\<rparr>,
             Error = None\<rparr>,
       Select (30 * second) TimerFired, CtxErr None]"
    by (simp add: run_simps)
  from C6_cancel_and_stop[THEN conjunct1, rule_format, OF r1 a1, THEN conjunct1, rule_format, OF refl]
  have "post = [Send \<lparr>Cluster = None, Error = Some (ContextErr DeadlineExceeded)\<rparr>, Close]"
    by simp
  moreover
  from C6_cancel_and_stop[THEN conjunct2, THEN conjunct1, rule_format, OF r2 a2,
      THEN conjunct2, rule_format, OF refl]
  have "upost = [Send \<lparr>Update = None, Error = Some (ErrorString ''wait stopped'')\<rparr>, Close]"
    by simp
  ultimately show ?thesis using r1 a1 p1 r2 a2 p2 by simp
qed

text \<open>
  C9. When the desired status is itself a failure value (\<open>FAILED\<close> for \<open>Poll\<close>; \<open>Cancelled\<close> or
  \<open>Failed\<close> for \<open>PollUpdate\<close>) and a describe call returns a snapshot with that status, the
  case of the desired status is taken: the run sends the snapshot with a nil error, closes
  and returns.
\<close>

theorem C9_desired_before_failure:
  "(Poll del cn ClusterStatusFailed iw pi opts script = (tr, returned) \<longrightarrow>
      tr = pre @ Describe i out None # post \<longrightarrow>
      DescribeClusterOutput.Cluster out = Some c \<longrightarrow>
      StringValue (Cluster.Status c) = ClusterStatusFailed \<longrightarrow>
      returned \<and> post = [Send \<lparr>Cluster = Some c, Error = None\<rparr>, Close])
   \<and> (ud = UpdateStatusCancelled \<or> ud = UpdateStatusFailed \<longrightarrow>
      PollUpdate cn rid ud iw pi opts uscript = (utr, ureturned) \<longrightarrow>
      utr = upre @ Describe ui uout None # upost \<longrightarrow>
      DescribeUpdateOutput.Update uout = Some u \<longrightarrow>
      StringValue (Update.Status u) = ud \<longrightarrow>
      ureturned \<and> upost = [Send \<lparr>Update = Some u, Error = None\<rparr>, Close])"
proof (intro conjI impI)
  assume run: "Poll del cn ClusterStatusFailed iw pi opts script = (tr, returned)"
    and at: "tr = pre @ Describe i out None # post"
    and c: "DescribeClusterOutput.Cluster out = Some c"
    and s: "StringValue (Cluster.Status c) = ClusterStatusFailed"
  from run have tr: "tr = fst (Poll_loop del cn ClusterStatusFailed iw pi
      (applyOpts \<lparr>queryFunc = None\<rparr> opts) \<lparr>waitDur = 0, first = True\<rparr> script)"
    by (simp add: Poll_def)
  have "desired_ends ClusterStatusFailed (Describe i out None) post"
    using at_each_pointD[OF Poll_loop_desired] tr at by metis
  with c s have post: "post = [Send \<lparr>Cluster = Some c, Error = None\<rparr>, Close]"
    by (simp add: desired_ends_def)
  then have "Close \<in> set tr" using at by simp
  then have returned by (rule Poll_closed_returned[OF run])
  then show returned .
  show "post = [Send \<lparr>Cluster = Some c, Error = None\<rparr>, Close]" by (rule post)
next
  assume run: "PollUpdate cn rid ud iw pi opts uscript = (utr, ureturned)"
    and at: "utr = upre @ Describe ui uout None # upost"
    and u: "DescribeUpdateOutput.Update uout = Some u"
    and s: "StringValue (Update.Status u) = ud"
  from run have tr: "utr = fst (PollUpdate_loop cn rid ud iw pi
      (applyOpts \<lparr>queryFunc = None\<rparr> opts) \<lparr>waitDur = 0, first = True\<rparr> uscript)"
    by (simp add: PollUpdate_def)
  have "update_desired_ends ud (Describe ui uout None) upost"
    using at_each_pointD[OF PollUpdate_loop_desired] tr at by metis
  with u s have post: "upost = [Send \<lparr>Update = Some u, Error = None\<rparr>, Close]"
    by (simp add: update_desired_ends_def)
  then have "Close \<in> set utr" using at by simp
  then have ureturned by (rule PollUpdate_closed_returned[OF run])
  then show ureturned .
  show "upost = [Send \<lparr>Update = Some u, Error = None\<rparr>, Close]" by (rule post)
qed

theorem C9_witness:
  "Poll ''DELETED/NOT-EXIST'' ''c'' ClusterStatusFailed (30 * second) (5 * second) []
     [cluster_tick ''FAILED''] =
     ([CtxErr None, Select 0 TimerFired,
       Describe ''c'' \<lparr>DescribeClusterOutput.Cluster = Some \<lparr>Name = Some ''c'', Status = Some ''FAILED''\<rparr>,
                       DescribeClusterOutput.GoString = ''{}''\<rparr> None,
       Send \<lparr>Cluster = Some \<lparr>Name = Some ''c'', Status = Some ''FAILED''\<rparr>, Error = None\<rparr>,
       Close], True)
   \<and> PollUpdate ''c'' ''u'' UpdateStatusCancelled (30 * second) (5 * second) []
     [update_tick ''Cancelled''] =
     ([CtxErr None, Select 0 TimerFired,
       Describe (''c'', ''u'')
         \<lparr>DescribeUpdateOutput.Update =
            Some \<lparr>Id = Some ''u'', Status = Some ''Cancelled'', Type = Some ''VersionUpdate''\<rparr>,
          DescribeUpdateOutput.GoString = ''{}''\<rparr> None,
       Send \<lparr>Update = Some \<lparr>Id = Some ''u'', Status = Some ''Cancelled'', Type = Some ''VersionUpdate''\<rparr>,
             Error = None\<rparr>,
       Close], True)
   \<and> PollUpdate ''c'' ''u'' UpdateStatusFailed (30 * second) (5 * second) []
     [update_tick ''Failed''] =
     ([CtxErr None, Select 0 TimerFired,
       Describe (''c'', ''u'')
         \<lparr>DescribeUpdateOutput.Update =
            Some \<lparr>Id = Some ''u'', Status = Some ''Failed'', Type = Some ''VersionUpdate''\<rparr>,
          DescribeUpdateOutput.GoString = ''{}''\<rparr> None,
       Send \<lparr>Update = Some \<lparr>Id = Some ''u'', Status = Some ''Failed'', Type = Some ''VersionUpdate''\<rparr>,
             Error = None\<rparr>,
       Close], True)"
proof -
  let ?c = "\<lparr>Name = Some ''c'', Status = Some ''FAILED''\<rparr>"
  let ?out = "\<lparr>DescribeClusterOutput.Cluster = Some ?c, DescribeClusterOutput.GoString = ''{}''\<rparr>"
  let ?u1 = "\<lparr>Id = Some ''u'', Status = Some ''Cancelled'', Type = Some ''VersionUpdate''\<rparr>"
  let ?out1 = "\<lparr>DescribeUpdateOutput.Update = Some ?u1, DescribeUpdateOutput.GoString = ''{}''\<rparr>"
  let ?u2 = "\<lparr>Id = Some ''u'', Status = Some ''Failed'', Type = Some ''VersionUpdate''\<rparr>"
  let ?out2 = "\<lparr>DescribeUpdateOutput.Update = Some ?u2, DescribeUpdateOutput.GoString = ''{}''\<rparr>"
  obtain tr post where r1:
      "Poll ''DELETED/NOT-EXIST'' ''c'' ClusterStatusFailed (30 * second) (5 * second) []
         [cluster_tick ''FAILED''] = (tr, True)"
    and a1: "tr = [CtxErr None, Select 0 TimerFired] @ Describe ''c'' ?out None # post"
    by (simp add: run_simps)
  obtain utr1 upost1 where r2:
      "PollUpdate ''c'' ''u'' UpdateStatusCancelled (30 * second) (5 * second) []
         [update_tick ''Cancelled''] = (utr1, True)"
    and a2: "utr1 = [CtxErr None, Select 0 TimerFired] @ Describe (''c'', ''u'') ?out1 None # upost1"
    by (simp add: run_simps)
  obtain utr2 upost2 where r3:
      "PollUpdate ''c'' ''u'' UpdateStatusFailed (30 * second) (5 * second) []
         [update_tick ''Failed''] = (utr2, True)"
    and a3: "utr2 = [CtxErr None, Select 0 TimerFired] @ Describe (''c'', ''u'') ?out2 None # upost2"
    by (simp add: run_simps)
  have s1: "StringValue (Cluster.Status ?c) = ClusterStatusFailed"
    by (simp add: StringValue_def ClusterStatusFailed_def)
  have s2: "StringValue (Update.Status ?u1) = UpdateStatusCancelled"
    by (simp add: StringValue_def UpdateStatusCancelled_def)
  have s3: "StringValue (Update.Status ?u2) = UpdateStatusFailed"
    by (simp add: StringValue_def UpdateStatusFailed_def)
  have c1: "DescribeClusterOutput.Cluster ?out = Some ?c" by simp
  have c2: "DescribeUpdateOutput.Update ?out1 = Some ?u1" by simp
  have c3: "DescribeUpdateOutput.Update ?out2 = Some ?u2" by simp
  from C9_desired_before_failure[THEN conjunct1, rule_format, OF r1 a1 c1 s1]
  have "post = [Send \<lparr>Cluster = Some ?c, Error = None\<rparr>, Close]" by simp
  moreover
  from C9_desired_before_failure[THEN conjunct2, rule_format, OF disjI1[OF refl] r2 a2 c2 s2]
  have "upost1 = [Send \<lparr>Update = Some ?u1, Error = None\<rparr>, Close]" by simp
  moreover
  from C9_desired_before_failure[THEN conjunct2, rule_format, OF disjI2[OF refl] r3 a3 c3 s3]
  have "upost2 = [Send \<lparr>Update = Some ?u2, Error = None\<rparr>, Close]" by simp
  ultimately show ?thesis using r1 a1 r2 a2 r3 a3 by simp
qed

text \<open>
  C10. \<open>PollUpdate\<close> has no success by absence: whatever the desired status, after a
  describe call whose error is classified as a missing update the run sends that error,
  closes and returns.
\<close>

theorem C10_update_absence_is_fatal:
  assumes run: "PollUpdate cn rid ud iw pi opts script = (tr, returned)"
    and at: "tr = pre @ Describe i out (Some er) # post"
    and absent: "updateNotExists (Some er)"
  shows "returned \<and> post = [Send \<lparr>Update = None, Error = Some er\<rparr>, Close]"
proof -
  from run have tr: "tr = fst (PollUpdate_loop cn rid ud iw pi
      (applyOpts \<lparr>queryFunc = None\<rparr> opts) \<lparr>waitDur = 0, first = True\<rparr> script)"
    by (simp add: PollUpdate_def)
  have "update_absent_ends (Describe i out (Some er)) post"
    using at_each_pointD[OF PollUpdate_loop_absent] tr at by metis
  with absent have post: "post = [Send \<lparr>Update = None, Error = Some er\<rparr>, Close]"
    by (simp add: update_absent_ends_def)
  then have "Close \<in> set tr" using at by simp
  then have returned by (rule PollUpdate_closed_returned[OF run])
  with post show ?thesis by simp
qed

theorem C10_witness:
  "updateNotExists (Some update_not_found)
   \<and> PollUpdate ''c'' ''u'' ''Successful'' (30 * second) (5 * second) []
        [update_error_tick update_not_found, update_tick ''Successful''] =
      ([CtxErr None, Select 0 TimerFired,
        Describe (''c'', ''u'')
          \<lparr>DescribeUpdateOutput.Update = None, DescribeUpdateOutput.GoString = ''{}''\<rparr>
          (Some update_not_found),
        Send \<lparr>Update = None, Error = Some update_not_found\<rparr>, Close], True)"
proof -
  let ?out = "\<lparr>DescribeUpdateOutput.Update = None, DescribeUpdateOutput.GoString = ''{}''\<rparr>"
  obtain tr post where r: "PollUpdate ''c'' ''u'' ''Successful'' (30 * second) (5 * second) []
        [update_error_tick update_not_found, update_tick ''Successful''] = (tr, True)"
    and a: "tr = [CtxErr None, Select 0 TimerFired]
              @ Describe (''c'', ''u'') ?out (Some update_not_found) # post"
    by (simp add: run_simps)
  from C10_update_absence_is_fatal[OF r a updateNotExists_update_not_found]
  have "post = [Send \<lparr>Update = None, Error = Some update_not_found\<rparr>, Close]" by simp
  then show ?thesis using r a updateNotExists_update_not_found by simp
qed

text \<open>
  C4, as amended. In every run, every event sent has exactly one of its two fields set,
  with two exceptions, each the last event before the close: the event of \<open>Poll\<close> with both
  fields nil, sent when the cluster is absent and the desired status is the deleted one;
  and the event with both fields set, sent with a snapshot whose status is a failure
  status. \<open>PollUpdate\<close> sends no event with both fields nil.
\<close>

theorem C4_event_shapes:
  "(Poll del cn d iw pi opts script = (tr, returned) \<longrightarrow> tr = pre @ Send ev # post \<longrightarrow>
      (ClusterStatus.Cluster ev = None \<and> (\<exists>e. ClusterStatus.Error ev = Some e))
    \<or> ((\<exists>c. ClusterStatus.Cluster ev = Some c) \<and> ClusterStatus.Error ev = None)
    \<or> (ev = \<lparr>Cluster = None, Error = None\<rparr> \<and> d = del \<and> post = [Close])
    \<or> (\<exists>c. ev = \<lparr>Cluster = Some c, Error = Some (ErrorString
                  (''unexpected cluster status '' @ quoted ClusterStatusFailed))\<rparr>
           \<and> StringValue (Cluster.Status c) = ClusterStatusFailed \<and> post = [Close]))
   \<and> (PollUpdate cn rid ud iw pi opts uscript = (utr, ureturned) \<longrightarrow>
        utr = upre @ Send uev # upost \<longrightarrow>
      (UpdateStatus.Update uev = None \<and> (\<exists>e. UpdateStatus.Error uev = Some e))
    \<or> ((\<exists>u. UpdateStatus.Update uev = Some u) \<and> UpdateStatus.Error uev = None)
    \<or> (\<exists>u. uev = \<lparr>Update = Some u, Error = Some (ErrorString
                  (''unexpected cluster update status '' @ quoted (StringValue (Update.Status u))))\<rparr>
           \<and> (StringValue (Update.Status u) = UpdateStatusCancelled
                \<or> StringValue (Update.Status u) = UpdateStatusFailed)
           \<and> upost = [Close]))"
proof (intro conjI impI)
  assume run: "Poll del cn d iw pi opts script = (tr, returned)"
    and at: "tr = pre @ Send ev # post"
  from run have tr: "tr = fst (Poll_loop del cn d iw pi
      (applyOpts \<lparr>queryFunc = None\<rparr> opts) \<lparr>waitDur = 0, first = True\<rparr> script)"
    by (simp add: Poll_def)
  have "event_shape del d (Send ev) post"
    using at_each_pointD[OF Poll_loop_event_shape] tr at by metis
  then show "(ClusterStatus.Cluster ev = None \<and> (\<exists>e. ClusterStatus.Error ev = Some e))
    \<or> ((\<exists>c. ClusterStatus.Cluster ev = Some c) \<and> ClusterStatus.Error ev = None)
    \<or> (ev = \<lparr>Cluster = None, Error = None\<rparr> \<and> d = del \<and> post = [Close])
    \<or> (\<exists>c. ev = \<lparr>Cluster = Some c, Error = Some (ErrorString
                  (''unexpected cluster status '' @ quoted ClusterStatusFailed))\<rparr>
           \<and> StringValue (Cluster.Status c) = ClusterStatusFailed \<and> post = [Close])"
    by (cases ev) (auto simp: event_shape_def split: option.splits)
next
  assume run: "PollUpdate cn rid ud iw pi opts uscript = (utr, ureturned)"
    and at: "utr = upre @ Send uev # upost"
  from run have tr: "utr = fst (PollUpdate_loop cn rid ud iw pi
      (applyOpts \<lparr>queryFunc = None\<rparr> opts) \<lparr>waitDur = 0, first = True\<rparr> uscript)"
    by (simp add: PollUpdate_def)
  have "update_event_shape (Send uev) upost"
    using at_each_pointD[OF PollUpdate_loop_event_shape] tr at by metis
  then show "(UpdateStatus.Update uev = None \<and> (\<exists>e. UpdateStatus.Error uev = Some e))
    \<or> ((\<exists>u. UpdateStatus.Update uev = Some u) \<and> UpdateStatus.Error uev = None)
    \<or> (\<exists>u. uev = \<lparr>Update = Some u, Error = Some (ErrorString
                  (''unexpected cluster update status '' @ quoted (StringValue (Update.Status u))))\<rparr>
           \<and> (StringValue (Update.Status u) = UpdateStatusCancelled
                \<or> StringValue (Update.Status u) = UpdateStatusFailed)
           \<and> upost = [Close])"
    by (cases uev) (auto simp: update_event_shape_def split: option.splits)
qed

text \<open>
  The claim as stated fails: with the deleted status desired and the cluster absent,
  \<open>Poll\<close> sends an event with both fields nil; on a cluster whose status is \<open>FAILED\<close> it sends
  an event with both fields set.
\<close>

theorem C4_counterexample:
  "sends (fst (Poll ''DELETED/NOT-EXIST'' ''c'' ''DELETED/NOT-EXIST'' (30 * second) (5 * second) []
      [cluster_error_tick cluster_not_found])) = [\<lparr>Cluster = None, Error = None\<rparr>]
   \<and> sends (fst (Poll ''DELETED/NOT-EXIST'' ''c'' ''ACTIVE'' (30 * second) (5 * second) []
      [cluster_tick ''FAILED''])) =
      [\<lparr>Cluster = Some \<lparr>Name = Some ''c'', Status = Some ''FAILED''\<rparr>,
        Error = Some (ErrorString (''unexpected cluster status '' @ [CHR 0x22] @ ''FAILED'' @ [CHR 0x22]))\<rparr>]"
  by (simp add: run_simps)

theorem C4_witness:
  "Poll ''DELETED/NOT-EXIST'' ''c'' ''ACTIVE'' (30 * second) (5 * second) []
      [cluster_tick ''CREATING'', cluster_tick ''FAILED''] =
     ([CtxErr None, Select 0 TimerFired,
       Describe ''c'' \<lparr>DescribeClusterOutput.Cluster = Some \<lparr>Name = Some ''c'', Status = Some ''CREATING''\<rparr>,
                       DescribeClusterOutput.GoString = ''{}''\<rparr> None,
       Send \<lparr>Cluster = Some \<lparr>Name = Some ''c'', Status = Some ''CREATING''\<rparr>, Error = None\<rparr>,
       Select (30 * second) TimerFired,
       CtxErr None, Select (5 * second) TimerFired,
       Describe ''c'' \<lparr>DescribeClusterOutput.Cluster = Some \<lparr>Name = Some ''c'', Status = Some ''FAILED''\<rparr>,
                       DescribeClusterOutput.GoString = ''{}''\<rparr> None,
       Send \<lparr>Cluster = Some \<lparr>Name = Some ''c'', Status = Some ''FAILED''\<rparr>,
             Error = Some (ErrorString (''unexpected cluster status '' @ quoted ClusterStatusFailed))\<rparr>,
       Close], True)
   \<and> PollUpdate ''c'' ''u'' ''Successful'' (30 * second) (5 * second) []
      [update_error_tick throttled, update_tick ''Cancelled''] =
     ([CtxErr None, Select 0 TimerFired,
       Describe (''c'', ''u'')
         \<lparr>DescribeUpdateOutput.Update = None, DescribeUpdateOutput.GoString = ''{}''\<rparr> (Some throttled),
       Send \<lparr>Update = None, Error = Some throttled\<rparr>,
       CtxErr None, Select (5 * second) TimerFired,
       Describe (''c'', ''u'')
         \<lparr>DescribeUpdateOutput.Update =
            Some \<lparr>Id = Some ''u'', Status = Some ''Cancelled'', Type = Some ''VersionUpdate''\<rparr>,
          DescribeUpdateOutput.GoString = ''{}''\<rparr> None,
       Send \<lparr>Update = Some \<lparr>Id = Some ''u'', Status = Some ''Cancelled'', Type = Some ''VersionUpdate''\<rparr>,
             Error = Some (ErrorString (''unexpected cluster update status '' @ quoted ''Cancelled''))\<rparr>,
       Close], True)"
proof -
  let ?c = "\<lparr>Name = Some ''c'', Status = Some ''FAILED''\<rparr>"
  let ?ev = "\<lparr>Cluster = Some ?c,
              Error = Some (ErrorString (''unexpected cluster status '' @ quoted ClusterStatusFailed))\<rparr>"
  let ?u = "\<lparr>Id = Some ''u'', Status = Some ''Cancelled'', Type = Some ''VersionUpdate''\<rparr>"
  let ?uev = "\<lparr>Update = Some ?u,
               Error = Some (ErrorString (''unexpected cluster update status '' @ quoted ''Cancelled''))\<rparr>"
  obtain tr pre post where r1:
      "Poll ''DELETED/NOT-EXIST'' ''c'' ''ACTIVE'' (30 * second) (5 * second) []
         [cluster_tick ''CREATING'', cluster_tick ''FAILED''] = (tr, True)"
    and a1: "tr = pre @ Send ?ev # post"
    and p1: "pre = [CtxErr None, Select 0 TimerFired,
       Describe ''c'' \<lparr>DescribeClusterOutput.Cluster = Some \<lparr>Name = Some ''c'', Status = Some ''CREATING''\<rparr>,
                       DescribeClusterOutput.GoString = ''{}''\<rparr> None,
       Send \<lparr>Cluster = Some \<lparr>Name = Some ''c'', Status = Some ''CREATING''\<rparr>, Error = None\<rparr>,
       Select (30 * second) TimerFired,
       CtxErr None, Select (5 * second) TimerFired,
       Describe ''c'' \<lparr>DescribeClusterOutput.Cluster = Some ?c,
                       DescribeClusterOutput.GoString = ''{}''\<rparr> None]"
    by (simp add: run_simps)
  obtain utr upre upost where r2:
      "PollUpdate ''c'' ''u'' ''Successful'' (30 * second) (5 * second) []
         [update_error_tick throttled, update_tick ''Cancelled''] = (utr, True)"
    and a2: "utr = upre @ Send ?uev # upost"
    and p2: "upre = [CtxErr None, Select 0 TimerFired,
       Describe (''c'', ''u'')
         \<lparr>DescribeUpdateOutput.Update = None, DescribeUpdateOutput.GoString = ''{}''\<rparr> (Some throttled),
       Send \<lparr>Update = None, Error = Some throttled\<rparr>,
       CtxErr None, Select (5 * second) TimerFired,
       Describe (''c'', ''u'')
         \<lparr>DescribeUpdateOutput.Update = Some ?u, DescribeUpdateOutput.GoString = ''{}''\<rparr> None]"
    by (simp add: run_simps)
  from C4_event_shapes[THEN conjunct1, rule_format, OF r1 a1]
  have "post = [Close]" by simp
  moreover
  from C4_event_shapes[THEN conjunct2, rule_format, OF r2 a2]
  have "upost = [Close]" by simp
  ultimately show ?thesis using r1 a1 p1 r2 a2 p2 by simp
qed

text \<open>
  C8, as amended. The callback set by \<open>WithQueryFunc\<close> is called exactly at the snapshots in
  progress: every call comes right after the event of a snapshot whose status is neither
  the desired one nor a failure status, and every such event is followed at once by one
  call (before the initial wait). It is called at no other point: not after the event of a
  query error or of an empty response, although such a tick does not end the run, and not
  on a tick that reaches the desired status, a failure status or absence, or whose
  interval wait is cancelled or stopped. The last \<open>WithQueryFunc\<close> among the options decides
  the callback.
\<close>

theorem C8_callback_after_progress:
  "(Poll del cn d iw pi opts script = (tr, returned) \<longrightarrow>
      (tr = pre @ Call g # post \<longrightarrow>
         queryFunc (applyOpts \<lparr>queryFunc = None\<rparr> opts) = Some g
         \<and> (\<exists>pre' c. pre = pre' @ [Send \<lparr>Cluster = Some c, Error = None\<rparr>]
               \<and> StringValue (Cluster.Status c) \<noteq> d
               \<and> StringValue (Cluster.Status c) \<noteq> ClusterStatusFailed))
    \<and> (tr = pre @ Send \<lparr>Cluster = Some c, Error = None\<rparr> # post \<longrightarrow>
         StringValue (Cluster.Status c) \<noteq> d \<longrightarrow>
         queryFunc (applyOpts \<lparr>queryFunc = None\<rparr> opts) = Some f \<longrightarrow>
         (\<exists>post'. post = Call f # post')))
   \<and> (PollUpdate cn rid ud iw pi opts uscript = (utr, ureturned) \<longrightarrow>
      (utr = upre @ Call g # upost \<longrightarrow>
         queryFunc (applyOpts \<lparr>queryFunc = None\<rparr> opts) = Some g
         \<and> (\<exists>pre' u. upre = pre' @ [Send \<lparr>Update = Some u, Error = None\<rparr>]
               \<and> StringValue (Update.Status u) \<noteq> ud
               \<and> StringValue (Update.Status u) \<noteq> UpdateStatusCancelled
               \<and> StringValue (Update.Status u) \<noteq> UpdateStatusFailed))
    \<and> (utr = upre @ Send \<lparr>Update = Some u, Error = None\<rparr> # upost \<longrightarrow>
         StringValue (Update.Status u) \<noteq> ud \<longrightarrow>
         queryFunc (applyOpts \<lparr>queryFunc = None\<rparr> opts) = Some f \<longrightarrow>
         (\<exists>post'. upost = Call f # post')))
   \<and> queryFunc (applyOpts op (opts @ [WithQueryFunc qf])) = qf"
proof -
  let ?ret = "applyOpts \<lparr>queryFunc = None\<rparr> opts"
  let ?st0 = "\<lparr>waitDur = 0, first = True\<rparr>"
  have p: "(tr = pre @ Call g # post \<longrightarrow>
         queryFunc ?ret = Some g
         \<and> (\<exists>pre' c. pre = pre' @ [Send \<lparr>Cluster = Some c, Error = None\<rparr>]
               \<and> StringValue (Cluster.Status c) \<noteq> d
               \<and> StringValue (Cluster.Status c) \<noteq> ClusterStatusFailed))
    \<and> (tr = pre @ Send \<lparr>Cluster = Some c, Error = None\<rparr> # post \<longrightarrow>
         StringValue (Cluster.Status c) \<noteq> d \<longrightarrow>
         queryFunc ?ret = Some f \<longrightarrow>
         (\<exists>post'. post = Call f # post'))"
    if run: "Poll del cn d iw pi opts script = (tr, returned)"
  proof (intro conjI impI)
    from run have tr: "tr = fst (Poll_loop del cn d iw pi ?ret ?st0 script)"
      by (simp add: Poll_def)
    {
      assume at: "tr = pre @ Call g # post"
      have "pre \<noteq> []"
        using Poll_loop_starts[of del cn d iw pi ?ret ?st0 script] tr at by auto
      then obtain pre' x where pre: "pre = pre' @ [x]"
        by (metis rev_exhaust)
      with at have "tr = pre' @ x # (Call g # post)" by simp
      then have "call_after_progress (queryFunc ?ret) d x (Call g # post)"
        using at_each_pointD[OF Poll_loop_call_after_progress] tr by metis
      then have q: "queryFunc ?ret = Some g"
        and x: "\<exists>c. x = Send \<lparr>Cluster = Some c, Error = None\<rparr>
             \<and> StringValue (Cluster.Status c) \<noteq> d
             \<and> StringValue (Cluster.Status c) \<noteq> ClusterStatusFailed"
        by (simp_all add: call_after_progress_def)
      show "queryFunc ?ret = Some g" by (rule q)
      show "\<exists>pre' c. pre = pre' @ [Send \<lparr>Cluster = Some c, Error = None\<rparr>]
               \<and> StringValue (Cluster.Status c) \<noteq> d
               \<and> StringValue (Cluster.Status c) \<noteq> ClusterStatusFailed"
        using pre x by blast
    }
    {
      assume at: "tr = pre @ Send \<lparr>Cluster = Some c, Error = None\<rparr> # post"
        and s: "StringValue (Cluster.Status c) \<noteq> d"
        and q: "queryFunc ?ret = Some f"
      have "progress_calls (queryFunc ?ret) d (Send \<lparr>Cluster = Some c, Error = None\<rparr>) post"
        using at_each_pointD[OF Poll_loop_progress_calls] tr at by metis
      with s q show "\<exists>post'. post = Call f # post'"
        by (simp add: progress_calls_def)
    }
  qed
  have u: "(utr = upre @ Call g # upost \<longrightarrow>
         queryFunc ?ret = Some g
         \<and> (\<exists>pre' u. upre = pre' @ [Send \<lparr>Update = Some u, Error = None\<rparr>]
               \<and> StringValue (Update.Status u) \<noteq> ud
               \<and> StringValue (Update.Status u) \<noteq> UpdateStatusCancelled
               \<and> StringValue (Update.Status u) \<noteq> UpdateStatusFailed))
    \<and> (utr = upre @ Send \<lparr>Update = Some u, Error = None\<rparr> # upost \<longrightarrow>
         StringValue (Update.Status u) \<noteq> ud \<longrightarrow>
         queryFunc ?ret = Some f \<longrightarrow>
         (\<exists>post'. upost = Call f # post'))"
    if run: "PollUpdate cn rid ud iw pi opts uscript = (utr, ureturned)"
  proof (intro conjI impI)
    from run have tr: "utr = fst (PollUpdate_loop cn rid ud iw pi ?ret ?st0 uscript)"
      by (simp add: PollUpdate_def)
    {
      assume at: "utr = upre @ Call g # upost"
      have "upre \<noteq> []"
        using PollUpdate_loop_starts[of cn rid ud iw pi ?ret ?st0 uscript] tr at by auto
      then obtain pre' x where pre: "upre = pre' @ [x]"
        by (metis rev_exhaust)
      with at have "utr = pre' @ x # (Call g # upost)" by simp
      then have "update_call_after_progress (queryFunc ?ret) ud x (Call g # upost)"
        using at_each_pointD[OF PollUpdate_loop_call_after_progress] tr by metis
      then have q: "queryFunc ?ret = Some g"
        and x: "\<exists>u. x = Send \<lparr>Update = Some u, Error = None\<rparr>
             \<and> StringValue (Update.Status u) \<noteq> ud
             \<and> StringValue (Update.Status u) \<noteq> UpdateStatusCancelled
             \<and> StringValue (Update.Status u) \<noteq> UpdateStatusFailed"
        by (simp_all add: update_call_after_progress_def)
      show "queryFunc ?ret = Some g" by (rule q)
      show "\<exists>pre' u. upre = pre' @ [Send \<lparr>Update = Some u, Error = None\<rparr>]
               \<and> StringValue (Update.Status u) \<noteq> ud
               \<and> StringValue (Update.Status u) \<noteq> UpdateStatusCancelled
               \<and> StringValue (Update.Status u) \<noteq> UpdateStatusFailed"
        using pre x by blast
    }
    {
      assume at: "utr = upre @ Send \<lparr>Update = Some u, Error = None\<rparr> # upost"
        and s: "StringValue (Update.Status u) \<noteq> ud"
        and q: "queryFunc ?ret = Some f"
      have "update_progress_calls (queryFunc ?ret) ud (Send \<lparr>Update = Some u, Error = None\<rparr>) upost"
        using at_each_pointD[OF PollUpdate_loop_progress_calls] tr at by metis
      with s q show "\<exists>post'. upost = Call f # post'"
        by (simp add: update_progress_calls_def)
    }
  qed
  have w: "queryFunc (applyOpts op (opts @ [WithQueryFunc qf])) = qf"
    by (simp add: applyOpts_def WithQueryFunc_def)
  from p u w show ?thesis by blast
qed

text \<open>
  The claim as stated fails: a tick whose query fails with a transient error does not end
  the run, and the configured callback is not called on it.
\<close>

theorem C8_counterexample:
  "Poll ''DELETED/NOT-EXIST'' ''c'' ''ACTIVE'' (30 * second) (5 * second) [WithQueryFunc (Some 7)]
     [cluster_error_tick throttled, cluster_tick ''ACTIVE''] =
     ([CtxErr None, Select 0 TimerFired,
       Describe ''c'' \<lparr>DescribeClusterOutput.Cluster = None, DescribeClusterOutput.GoString = ''{}''\<rparr>
         (Some throttled),
       Send \<lparr>Cluster = None, Error = Some throttled\<rparr>,
       CtxErr None, Select (5 * second) TimerFired,
       Describe ''c'' \<lparr>DescribeClusterOutput.Cluster = Some \<lparr>Name = Some ''c'', Status = Some ''ACTIVE''\<rparr>,
                       DescribeClusterOutput.GoString = ''{}''\<rparr> None,
       Send \<lparr>Cluster = Some \<lparr>Name = Some ''c'', Status = Some ''ACTIVE''\<rparr>, Error = None\<rparr>,
       Close], True)
   \<and> Call 7 \<notin> set (fst (Poll ''DELETED/NOT-EXIST'' ''c'' ''ACTIVE'' (30 * second) (5 * second)
        [WithQueryFunc (Some 7)] [cluster_error_tick throttled, cluster_tick ''ACTIVE'']))"
  by (simp add: run_simps)

theorem C8_witness:
  "Poll ''DELETED/NOT-EXIST'' ''c'' ''ACTIVE'' (30 * second) (5 * second) [WithQueryFunc (Some 7)]
     [cluster_tick ''CREATING'', cluster_error_tick throttled, cluster_tick ''ACTIVE''] =
     ([CtxErr None, Select 0 TimerFired,
       Describe ''c'' \<lparr>DescribeClusterOutput.Cluster = Some \<lparr>Name = Some ''c'', Status = Some ''CREATING''\<rparr>,
                       DescribeClusterOutput.GoString = ''{}''\<rparr> None,
       Send \<lparr>Cluster = Some \<lparr>Name = Some ''c'', Status = Some ''CREATING''\<rparr>, Error = None\<rparr>,
       Call 7,
       Select (30 * second) TimerFired,
       CtxErr None, Select (5 * second) TimerFired,
       Describe ''c'' \<lparr>DescribeClusterOutput.Cluster = None, DescribeClusterOutput.GoString = ''{}''\<rparr>
         (Some throttled),
       Send \<lparr>Cluster = None, Error = Some throttled\<rparr>,
       CtxErr None, Select (5 * second) TimerFired,
       Describe ''c'' \<lparr>DescribeClusterOutput.Cluster = Some \<lparr>Name = Some ''c'', Status = Some ''ACTIVE''\<rparr>,
                       DescribeClusterOutput.GoString = ''{}''\<rparr> None,
       Send \<lparr>Cluster = Some \<lparr>Name = Some ''c'', Status = Some ''ACTIVE''\<rparr>, Error = None\<rparr>,
       Close], True)
   \<and> queryFunc (applyOpts \<lparr>queryFunc = None\<rparr> [WithQueryFunc (Some 7)]) = Some 7"
proof -
  let ?c = "\<lparr>Name = Some ''c'', Status = Some ''CREATING''\<rparr>"
  have q: "queryFunc (applyOpts \<lparr>queryFunc = None\<rparr> [WithQueryFunc (Some 7)]) = Some 7"
    by (simp add: applyOpts_def WithQueryFunc_def)
  obtain tr pre post where r:
      "Poll ''DELETED/NOT-EXIST'' ''c'' ''ACTIVE'' (30 * second) (5 * second) [WithQueryFunc (Some 7)]
        [cluster_tick ''CREATING'', cluster_error_tick throttled, cluster_tick ''ACTIVE''] = (tr, True)"
    and a: "tr = pre @ Send \<lparr>Cluster = Some ?c, Error = None\<rparr> # post"
    and p: "pre = [CtxErr None, Select 0 TimerFired,
       Describe ''c'' \<lparr>DescribeClusterOutput.Cluster = Some ?c,
                       DescribeClusterOutput.GoString = ''{}''\<rparr> None]"
    and post: "post = [Call 7,
       Select (30 * second) TimerFired,
       CtxErr None, Select (5 * second) TimerFired,
       Describe ''c'' \<lparr>DescribeClusterOutput.Cluster = None, DescribeClusterOutput.GoString = ''{}''\<rparr>
         (Some throttled),
       Send \<lparr>Cluster = None, Error = Some throttled\<rparr>,
       CtxErr None, Select (5 * second) TimerFired,
       Describe ''c'' \<lparr>DescribeClusterOutput.Cluster = Some \<lparr>Name = Some ''c'', Status = Some ''ACTIVE''\<rparr>,
                       DescribeClusterOutput.GoString = ''{}''\<rparr> None,
       Send \<lparr>Cluster = Some \<lparr>Name = Some ''c'', Status = Some ''ACTIVE''\<rparr>, Error = None\<rparr>,
       Close]"
    by (simp add: run_simps)
  have s: "StringValue (Cluster.Status ?c) \<noteq> ''ACTIVE''"
    by (simp add: StringValue_def)
  from C8_callback_after_progress[THEN conjunct1, rule_format, OF r, THEN conjunct2, rule_format,
      OF a s q]
  have "\<exists>post'. post = Call 7 # post'" .
  then show ?thesis using r a p post q by simp
qed

text \<open>
  C2, as amended. With a poll interval of 5 s, an initial wait of 30 s, desired status
  \<open>ACTIVE\<close> and the describe calls returning \<open>CREATING\<close>, \<open>CREATING\<close>, \<open>ACTIVE\<close>, \<open>Poll\<close> sends
  exactly three events, at \<open>t0\<close>, \<open>t0 + 35 s\<close> and \<open>t0 + 40 s\<close>: the first call is made without
  a wait; before the second call the loop waits the initial wait and then the poll
  interval; before each later call it waits the poll interval. The three events carry no
  error, and the channel is closed right after the third.
\<close>

theorem C2_three_events:
  "snd (Poll del ''c'' ''ACTIVE'' (30 * second) (5 * second) opts
          [cluster_tick ''CREATING'', cluster_tick ''CREATING'', cluster_tick ''ACTIVE''])
   \<and> sent_at t0 (fst (Poll del ''c'' ''ACTIVE'' (30 * second) (5 * second) opts
          [cluster_tick ''CREATING'', cluster_tick ''CREATING'', cluster_tick ''ACTIVE''])) =
       [(t0, \<lparr>Cluster = Some \<lparr>Name = Some ''c'', Status = Some ''CREATING''\<rparr>, Error = None\<rparr>),
        (t0 + 35 * second,
           \<lparr>Cluster = Some \<lparr>Name = Some ''c'', Status = Some ''CREATING''\<rparr>, Error = None\<rparr>),
        (t0 + 40 * second,
           \<lparr>Cluster = Some \<lparr>Name = Some ''c'', Status = Some ''ACTIVE''\<rparr>, Error = None\<rparr>)]
   \<and> (\<exists>pre. fst (Poll del ''c'' ''ACTIVE'' (30 * second) (5 * second) opts
          [cluster_tick ''CREATING'', cluster_tick ''CREATING'', cluster_tick ''ACTIVE'']) =
        pre @ [Send \<lparr>Cluster = Some \<lparr>Name = Some ''c'', Status = Some ''ACTIVE''\<rparr>, Error = None\<rparr>,
               Close]
        \<and> Close \<notin> set pre)"
proof (cases "queryFunc (applyOpts \<lparr>queryFunc = None\<rparr> opts)")
  case None
  then show ?thesis
    by (simp add: Poll_def Poll_body_def StringValue_def ClusterStatusFailed_def Let_def
        cluster_tick_def second_def)
next
  case (Some f)
  then show ?thesis
    by (simp add: Poll_def Poll_body_def StringValue_def ClusterStatusFailed_def Let_def
        cluster_tick_def second_def)
qed

text \<open>
  The claim as stated fails: the second and third events are not sent at \<open>30 s\<close> and
  \<open>35 s\<close> after the first.
\<close>

theorem C2_counterexample:
  "map fst (sent_at 0 (fst (Poll ''DELETED/NOT-EXIST'' ''c'' ''ACTIVE'' (30 * second) (5 * second) []
       [cluster_tick ''CREATING'', cluster_tick ''CREATING'', cluster_tick ''ACTIVE''])))
   \<noteq> [0, 30 * second, 35 * second]"
  by (simp add: run_simps)

text \<open>
  C5. A query error not classified as absence, and a successful query with an empty
  payload, are sent as an error event and do not end the run. At every point of every run
  of \<open>Poll\<close> and of \<open>PollUpdate\<close>, such a describe call is followed at once by the send of
  its error event, after which the goroutine is back at the loop guard. For any number of
  such ticks in a row from the start of a run: the run has not returned and has not closed
  the channel, and it has sent exactly one error event for each of them, in order. When
  the next tick then returns a snapshot with the desired status, the run sends that
  snapshot with a nil error as its last event, closes and returns; the \<open>k\<close>-th query is made
  \<open>k\<close> poll intervals after the first. With one such tick this is the sequence
  [transient error, desired status], which gives exactly two events.
\<close>

theorem C5_transient_errors_are_retried:
  "(Poll del cn d iw pi opts script = (tr, returned) \<longrightarrow> tr = pre @ Describe i qout qerr # post \<longrightarrow>
      (qerr = Some er \<longrightarrow> \<not> IsDeleted (Some er) \<longrightarrow>
         (\<exists>post'. post = Send \<lparr>Cluster = None, Error = Some er\<rparr> # post' \<and> back_at_guard post'))
    \<and> (qerr = None \<longrightarrow> DescribeClusterOutput.Cluster qout = None \<longrightarrow>
         (\<exists>post'. post = Send \<lparr>Cluster = None, Error = Some (ErrorString
               (''unexpected empty response '' @ DescribeClusterOutput.GoString qout))\<rparr> # post'
            \<and> back_at_guard post')))
   \<and> (PollUpdate cn rid ud iw pi opts uscript = (utr, ureturned) \<longrightarrow>
        utr = upre @ Describe ui uqout qerr # upost \<longrightarrow>
      (qerr = Some er \<longrightarrow> \<not> updateNotExists (Some er) \<longrightarrow>
         (\<exists>post'. upost = Send \<lparr>Update = None, Error = Some er\<rparr> # post' \<and> back_at_guard post'))
    \<and> (qerr = None \<longrightarrow> DescribeUpdateOutput.Update uqout = None \<longrightarrow>
         (\<exists>post'. upost = Send \<lparr>Update = None, Error = Some (ErrorString
               (''unexpected empty response '' @ DescribeUpdateOutput.GoString uqout))\<rparr> # post'
            \<and> back_at_guard post')))
   \<and> (list_all transient_tick es \<longrightarrow>
      ctxErr fin = None \<longrightarrow> interval_select fin = TimerFired \<longrightarrow> api fin = (out, None) \<longrightarrow>
      DescribeClusterOutput.Cluster out = Some c \<longrightarrow> StringValue (Cluster.Status c) = d \<longrightarrow>
      \<not> snd (Poll del cn d iw pi opts es)
      \<and> Close \<notin> set (fst (Poll del cn d iw pi opts es))
      \<and> sends (fst (Poll del cn d iw pi opts es)) = map transient_event es
      \<and> snd (Poll del cn d iw pi opts (es @ [fin]))
      \<and> sends (fst (Poll del cn d iw pi opts (es @ [fin]))) =
          map transient_event es @ [\<lparr>Cluster = Some c, Error = None\<rparr>]
      \<and> map fst (sent_at t0 (fst (Poll del cn d iw pi opts (es @ [fin])))) =
          map (\<lambda>k. t0 + int k * max 0 pi) [0..<Suc (length es)]
      \<and> (\<exists>pre. fst (Poll del cn d iw pi opts (es @ [fin])) =
            pre @ [Send \<lparr>Cluster = Some c, Error = None\<rparr>, Close] \<and> Close \<notin> set pre))
   \<and> (list_all update_transient_tick ues \<longrightarrow>
      ctxErr ufin = None \<longrightarrow> interval_select ufin = TimerFired \<longrightarrow> api ufin = (uout, None) \<longrightarrow>
      DescribeUpdateOutput.Update uout = Some u \<longrightarrow> StringValue (Update.Status u) = ud \<longrightarrow>
      \<not> snd (PollUpdate cn rid ud iw pi opts ues)
      \<and> Close \<notin> set (fst (PollUpdate cn rid ud iw pi opts ues))
      \<and> sends (fst (PollUpdate cn rid ud iw pi opts ues)) = map update_transient_event ues
      \<and> snd (PollUpdate cn rid ud iw pi opts (ues @ [ufin]))
      \<and> sends (fst (PollUpdate cn rid ud iw pi opts (ues @ [ufin]))) =
          map update_transient_event ues @ [\<lparr>Update = Some u, Error = None\<rparr>]
      \<and> map fst (sent_at t0 (fst (PollUpdate cn rid ud iw pi opts (ues @ [ufin])))) =
          map (\<lambda>k. t0 + int k * max 0 pi) [0..<Suc (length ues)]
      \<and> (\<exists>pre. fst (PollUpdate cn rid ud iw pi opts (ues @ [ufin])) =
            pre @ [Send \<lparr>Update = Some u, Error = None\<rparr>, Close] \<and> Close \<notin> set pre))"
proof -
  have a: "Poll del cn d iw pi opts script = (tr, returned) \<longrightarrow> tr = pre @ Describe i qout qerr # post \<longrightarrow>
      (qerr = Some er \<longrightarrow> \<not> IsDeleted (Some er) \<longrightarrow>
         (\<exists>post'. post = Send \<lparr>Cluster = None, Error = Some er\<rparr> # post' \<and> back_at_guard post'))
    \<and> (qerr = None \<longrightarrow> DescribeClusterOutput.Cluster qout = None \<longrightarrow>
         (\<exists>post'. post = Send \<lparr>Cluster = None, Error = Some (ErrorString
               (''unexpected empty response '' @ DescribeClusterOutput.GoString qout))\<rparr> # post'
            \<and> back_at_guard post'))"
    using Poll_retried_at[of del cn d iw pi opts script tr returned pre i qout qerr post] by blast
  have b: "PollUpdate cn rid ud iw pi opts uscript = (utr, ureturned) \<longrightarrow>
        utr = upre @ Describe ui uqout qerr # upost \<longrightarrow>
      (qerr = Some er \<longrightarrow> \<not> updateNotExists (Some er) \<longrightarrow>
         (\<exists>post'. upost = Send \<lparr>Update = None, Error = Some er\<rparr> # post' \<and> back_at_guard post'))
    \<and> (qerr = None \<longrightarrow> DescribeUpdateOutput.Update uqout = None \<longrightarrow>
         (\<exists>post'. upost = Send \<lparr>Update = None, Error = Some (ErrorString
               (''unexpected empty response '' @ DescribeUpdateOutput.GoString uqout))\<rparr> # post'
            \<and> back_at_guard post'))"
    using PollUpdate_retried_at[of cn rid ud iw pi opts uscript utr ureturned upre ui uqout qerr upost]
    by blast
  show ?thesis
    using a b Poll_transient_run[of es fin out c d del cn iw pi opts t0]
      PollUpdate_transient_run[of ues ufin uout u ud cn rid iw pi opts t0]
    by blast
qed

theorem C5_witness:
  "list_all transient_tick [cluster_error_tick throttled]
   \<and> Poll ''DELETED/NOT-EXIST'' ''c'' ''ACTIVE'' (30 * second) (5 * second) []
        [cluster_error_tick throttled] =
      ([CtxErr None, Select 0 TimerFired,
        Describe ''c'' \<lparr>DescribeClusterOutput.Cluster = None, DescribeClusterOutput.GoString = ''{}''\<rparr>
          (Some throttled),
        Send \<lparr>Cluster = None, Error = Some throttled\<rparr>], False)
   \<and> snd (Poll ''DELETED/NOT-EXIST'' ''c'' ''ACTIVE'' (30 * second) (5 * second) []
        ([cluster_error_tick throttled] @ [cluster_tick ''ACTIVE'']))
   \<and> sends (fst (Poll ''DELETED/NOT-EXIST'' ''c'' ''ACTIVE'' (30 * second) (5 * second) []
        ([cluster_error_tick throttled] @ [cluster_tick ''ACTIVE'']))) =
      [\<lparr>Cluster = None, Error = Some throttled\<rparr>,
       \<lparr>Cluster = Some \<lparr>Name = Some ''c'', Status = Some ''ACTIVE''\<rparr>, Error = None\<rparr>]
   \<and> map fst (sent_at 0 (fst (Poll ''DELETED/NOT-EXIST'' ''c'' ''ACTIVE'' (30 * second) (5 * second) []
        ([cluster_error_tick throttled] @ [cluster_tick ''ACTIVE''])))) = [0, 5 * second]
   \<and> list_all update_transient_tick
        [update_error_tick throttled,
         (update_tick ''InProgress'')\<lparr>api :=
            (\<lparr>DescribeUpdateOutput.Update = None, DescribeUpdateOutput.GoString = ''{}''\<rparr>, None)\<rparr>]
   \<and> sends (fst (PollUpdate ''c'' ''u'' ''Successful'' (30 * second) (5 * second) []
        ([update_error_tick throttled,
          (update_tick ''InProgress'')\<lparr>api :=
            (\<lparr>DescribeUpdateOutput.Update = None, DescribeUpdateOutput.GoString = ''{}''\<rparr>, None)\<rparr>]
         @ [update_tick ''Successful'']))) =
      [\<lparr>Update = None, Error = Some throttled\<rparr>,
       \<lparr>Update = None, Error = Some (ErrorString ''unexpected empty response {}'')\<rparr>,
       \<lparr>Update = Some \<lparr>Id = Some ''u'', Status = Some ''Successful'', Type = Some ''VersionUpdate''\<rparr>,
         Error = None\<rparr>]"
proof -
  let ?c = "\<lparr>Name = Some ''c'', Status = Some ''ACTIVE''\<rparr>"
  let ?out = "\<lparr>DescribeClusterOutput.Cluster = Some ?c, DescribeClusterOutput.GoString = ''{}''\<rparr>"
  let ?u = "\<lparr>Id = Some ''u'', Status = Some ''Successful'', Type = Some ''VersionUpdate''\<rparr>"
  let ?uout = "\<lparr>DescribeUpdateOutput.Update = Some ?u, DescribeUpdateOutput.GoString = ''{}''\<rparr>"
  let ?ues = "[update_error_tick throttled,
         (update_tick ''InProgress'')\<lparr>api :=
            (\<lparr>DescribeUpdateOutput.Update = None, DescribeUpdateOutput.GoString = ''{}''\<rparr>, None)\<rparr>]"
  have t: "list_all transient_tick [cluster_error_tick throttled]"
    using not_IsDeleted_throttled by (simp add: transient_tick_def cluster_error_tick_def)
  have f: "ctxErr (cluster_tick ''ACTIVE'') = None"
    "interval_select (cluster_tick ''ACTIVE'') = TimerFired"
    "api (cluster_tick ''ACTIVE'') = (?out, None)"
    "DescribeClusterOutput.Cluster ?out = Some ?c"
    "StringValue (Cluster.Status ?c) = ''ACTIVE''"
    by (simp_all add: cluster_tick_def StringValue_def)
  have ut: "list_all update_transient_tick ?ues"
    using not_updateNotExists_throttled
    by (simp add: update_transient_tick_def update_error_tick_def update_tick_def)
  have uf: "ctxErr (update_tick ''Successful'') = None"
    "interval_select (update_tick ''Successful'') = TimerFired"
    "api (update_tick ''Successful'') = (?uout, None)"
    "DescribeUpdateOutput.Update ?uout = Some ?u"
    "StringValue (Update.Status ?u) = ''Successful''"
    by (simp_all add: update_tick_def StringValue_def)
  have r: "Poll ''DELETED/NOT-EXIST'' ''c'' ''ACTIVE'' (30 * second) (5 * second) []
        [cluster_error_tick throttled] =
      ([CtxErr None, Select 0 TimerFired,
        Describe ''c'' \<lparr>DescribeClusterOutput.Cluster = None, DescribeClusterOutput.GoString = ''{}''\<rparr>
          (Some throttled),
        Send \<lparr>Cluster = None, Error = Some throttled\<rparr>], False)"
    using not_IsDeleted_throttled
    by (simp add: Poll_def Poll_body_def applyOpts_def Let_def cluster_error_tick_def)
  note p = C5_transient_errors_are_retried[THEN conjunct2, THEN conjunct2, THEN conjunct1,
      rule_format, OF t f,
      of "''DELETED/NOT-EXIST''" "''c''" "30 * second" "5 * second" "[]" 0]
  note q = C5_transient_errors_are_retried[THEN conjunct2, THEN conjunct2, THEN conjunct2,
      rule_format, OF ut uf,
      of "''c''" "''u''" "30 * second" "5 * second" "[]" 0]
  have te: "map transient_event [cluster_error_tick throttled] =
      [\<lparr>Cluster = None, Error = Some throttled\<rparr>]"
    by (simp add: transient_event_def cluster_error_tick_def)
  have ute: "map update_transient_event ?ues =
      [\<lparr>Update = None, Error = Some throttled\<rparr>,
       \<lparr>Update = None, Error = Some (ErrorString ''unexpected empty response {}'')\<rparr>]"
    by (simp add: update_transient_event_def update_error_tick_def update_tick_def)
  have times: "map (\<lambda>k. 0 + int k * max 0 (5 * second)) [0..<Suc (length [cluster_error_tick throttled])]
      = [0, 5 * second]"
    by (simp add: second_def)
  have at: "[CtxErr None, Select 0 TimerFired,
        Describe ''c'' \<lparr>DescribeClusterOutput.Cluster = None, DescribeClusterOutput.GoString = ''{}''\<rparr>
          (Some throttled),
        Send \<lparr>Cluster = None, Error = Some throttled\<rparr>] =
      [CtxErr None, Select 0 TimerFired] @
        Describe ''c'' \<lparr>DescribeClusterOutput.Cluster = None, DescribeClusterOutput.GoString = ''{}''\<rparr>
          (Some throttled) # [Send \<lparr>Cluster = None, Error = Some throttled\<rparr>]"
    by simp
  note g = C5_transient_errors_are_retried[THEN conjunct1, rule_format, OF r at,
      THEN conjunct1, rule_format, OF refl not_IsDeleted_throttled]
  have ur: "PollUpdate ''c'' ''u'' ''Successful'' (30 * second) (5 * second) []
        [(update_tick ''InProgress'')\<lparr>api :=
            (\<lparr>DescribeUpdateOutput.Update = None, DescribeUpdateOutput.GoString = ''{}''\<rparr>, None)\<rparr>] =
      ([CtxErr None, Select 0 TimerFired] @
        Describe (''c'', ''u'')
          \<lparr>DescribeUpdateOutput.Update = None, DescribeUpdateOutput.GoString = ''{}''\<rparr> None
        # [Send \<lparr>Update = None, Error = Some (ErrorString ''unexpected empty response {}'')\<rparr>],
       False)"
    by (simp add: PollUpdate_def PollUpdate_body_def applyOpts_def Let_def update_tick_def)
  have uo: "DescribeUpdateOutput.Update
      \<lparr>DescribeUpdateOutput.Update = None, DescribeUpdateOutput.GoString = ''{}''\<rparr> = None"
    by simp
  note h = C5_transient_errors_are_retried[THEN conjunct2, THEN conjunct1, rule_format, OF ur refl,
      THEN conjunct2, rule_format, OF refl uo]
  show ?thesis
    using t ut r p q te ute times g h by simp
qed


end
